theory Spec2Isabelle
  imports Main "HOL-Library.AList"
begin

section \<open>Strings of the source\<close>

text \<open>
  A Python \<open>str\<close> is modelled as a \<open>string\<close>; a \<open>char\<close> stands for the code point
  with the same number, so the model covers the code points U+0000 to U+00FF. On
  that range \<open>str.lower\<close> acts character by character, and the three tables below are
  those of CPython for \<open>str.isalnum\<close>, \<open>str.lower\<close> and \<open>str.isspace\<close>.
\<close>

definition py_isalnum :: "char \<Rightarrow> bool" where
  "py_isalnum c =
     (let n = (of_char c :: nat) in
        (48 \<le> n \<and> n \<le> 57) \<or> (65 \<le> n \<and> n \<le> 90) \<or> (97 \<le> n \<and> n \<le> 122) \<or>
        n = 170 \<or> n = 178 \<or> n = 179 \<or> n = 181 \<or> n = 185 \<or> n = 186 \<or>
        n = 188 \<or> n = 189 \<or> n = 190 \<or>
        (192 \<le> n \<and> n \<le> 214) \<or> (216 \<le> n \<and> n \<le> 246) \<or> (248 \<le> n \<and> n \<le> 255))"

definition py_lower_char :: "char \<Rightarrow> char" where
  "py_lower_char c =
     (let n = (of_char c :: nat) in
        if (65 \<le> n \<and> n \<le> 90) \<or> (192 \<le> n \<and> n \<le> 214) \<or> (216 \<le> n \<and> n \<le> 222)
        then char_of (n + 32) else c)"

definition py_lower :: "string \<Rightarrow> string" where
  "py_lower s = map py_lower_char s"

definition py_isspace :: "char \<Rightarrow> bool" where
  "py_isspace c =
     (let n = (of_char c :: nat) in
        (9 \<le> n \<and> n \<le> 13) \<or> (28 \<le> n \<and> n \<le> 32) \<or> n = 133 \<or> n = 160)"

text \<open>\<open>s.strip()\<close>: leading and trailing whitespace removed.\<close>

definition py_strip :: "string \<Rightarrow> string" where
  "py_strip s = rev (dropWhile py_isspace (rev (dropWhile py_isspace s)))"

text \<open>\<open>s.strip(chars)\<close>: leading and trailing characters of \<open>chars\<close> removed.\<close>

definition py_strip_chars :: "string \<Rightarrow> string \<Rightarrow> string" where
  "py_strip_chars chars s =
     rev (dropWhile (\<lambda>c. c \<in> set chars) (rev (dropWhile (\<lambda>c. c \<in> set chars) s)))"

text \<open>\<open>sep.join(parts)\<close>.\<close>

fun py_join :: "string \<Rightarrow> string list \<Rightarrow> string" where
  "py_join sep [] = []"
| "py_join sep [p] = p"
| "py_join sep (p # q # ps) = p @ sep @ py_join sep (q # ps)"

section \<open>Filter tags: \<open>sanitize_label\<close>\<close>

text \<open>
  The local function of \<open>render_html\<close>: the label is lowercased, then every character
  that is not alphanumeric is replaced by a dash, one dash for one character, and the
  dashes at both ends are stripped.
\<close>

definition dash_char :: "char \<Rightarrow> char" where
  "dash_char ch = (if py_isalnum ch then ch else CHR ''-'')"

definition sanitize_label :: "string \<Rightarrow> string" where
  "sanitize_label label = py_strip_chars ''-'' (map dash_char (py_lower label))"

section \<open>Values of the payload\<close>

text \<open>
  The payload is parsed JSON. A scalar of it is a \<open>jvalue\<close>; \<open>py_str\<close> is Python's
  \<open>str\<close> on such a scalar (floats, lists and objects in the place of a scalar are not
  modelled). A key that may be missing from an object is an \<open>option\<close> field, \<open>None\<close>
  when the key is absent.
\<close>

datatype jvalue = JNull | JBool bool | JInt int | JStr string

definition digit_char :: "nat \<Rightarrow> char" where
  "digit_char d = char_of (48 + d)"

fun digits :: "nat \<Rightarrow> string" where
  "digits n = (if n < 10 then [digit_char n] else digits (n div 10) @ [digit_char (n mod 10)])"

declare digits.simps [simp del]

definition str_int :: "int \<Rightarrow> string" where
  "str_int i = (if i < 0 then CHR ''-'' # digits (nat (- i)) else digits (nat i))"

fun py_str :: "jvalue \<Rightarrow> string" where
  "py_str JNull = ''None''"
| "py_str (JBool b) = (if b then ''True'' else ''False'')"
| "py_str (JInt i) = str_int i"
| "py_str (JStr s) = s"

text \<open>\<open>d.get(key, "")\<close> on an object of the payload.\<close>

definition get_or_empty :: "jvalue option \<Rightarrow> jvalue" where
  "get_or_empty f = (case f of None \<Rightarrow> JStr [] | Some v \<Rightarrow> v)"

record sample_json =
  j_value :: "jvalue option"
  j_state :: "jvalue option"
  j_color :: "jvalue option"

text \<open>An entry of \<open>elements\<close>; its key \<open>row\<close> is read nowhere and left out.\<close>

record entry_json =
  j_symbol :: "jvalue option"
  j_samples :: "sample_json list option"

text \<open>
  The payload. The two legends are dictionaries with string keys and values, kept as
  association lists in the order of the JSON text (a Python \<open>dict\<close> iterates in
  insertion order); their keys are distinct.
\<close>

record payload =
  p_elements :: "entry_json list option"
  p_legend :: "(string \<times> string) list option"
  p_labelColors :: "(string \<times> string) list option"

section \<open>Periodic table metadata\<close>

record meta =
  meta_z :: int
  meta_symbol :: string
  meta_name :: string
  meta_group :: int
  meta_period :: int

definition element :: "int \<Rightarrow> string \<Rightarrow> string \<Rightarrow> int \<Rightarrow> int \<Rightarrow> meta" where
  "element n s nm g p =
     \<lparr>meta_z = n, meta_symbol = s, meta_name = nm, meta_group = g, meta_period = p\<rparr>"

definition PERIODIC_TABLE :: "meta list" where
  "PERIODIC_TABLE = [
     element 1 ''H'' ''Hydrogen'' 1 1,
     element 2 ''He'' ''Helium'' 18 1,
     element 3 ''Li'' ''Lithium'' 1 2,
     element 4 ''Be'' ''Beryllium'' 2 2,
     element 5 ''B'' ''Boron'' 13 2,
     element 6 ''C'' ''Carbon'' 14 2,
     element 7 ''N'' ''Nitrogen'' 15 2,
     element 8 ''O'' ''Oxygen'' 16 2,
     element 9 ''F'' ''Fluorine'' 17 2,
     element 10 ''Ne'' ''Neon'' 18 2,
     element 11 ''Na'' ''Sodium'' 1 3,
     element 12 ''Mg'' ''Magnesium'' 2 3,
     element 13 ''Al'' ''Aluminium'' 13 3,
     element 14 ''Si'' ''Silicon'' 14 3,
     element 15 ''P'' ''Phosphorus'' 15 3,
     element 16 ''S'' ''Sulfur'' 16 3,
     element 17 ''Cl'' ''Chlorine'' 17 3,
     element 18 ''Ar'' ''Argon'' 18 3,
     element 19 ''K'' ''Potassium'' 1 4,
     element 20 ''Ca'' ''Calcium'' 2 4,
     element 21 ''Sc'' ''Scandium'' 3 4,
     element 22 ''Ti'' ''Titanium'' 4 4,
     element 23 ''V'' ''Vanadium'' 5 4,
     element 24 ''Cr'' ''Chromium'' 6 4,
     element 25 ''Mn'' ''Manganese'' 7 4,
     element 26 ''Fe'' ''Iron'' 8 4,
     element 27 ''Co'' ''Cobalt'' 9 4,
     element 28 ''Ni'' ''Nickel'' 10 4,
     element 29 ''Cu'' ''Copper'' 11 4,
     element 30 ''Zn'' ''Zinc'' 12 4,
     element 31 ''Ga'' ''Gallium'' 13 4,
     element 32 ''Ge'' ''Germanium'' 14 4,
     element 33 ''As'' ''Arsenic'' 15 4,
     element 34 ''Se'' ''Selenium'' 16 4,
     element 35 ''Br'' ''Bromine'' 17 4,
     element 36 ''Kr'' ''Krypton'' 18 4,
     element 37 ''Rb'' ''Rubidium'' 1 5,
     element 38 ''Sr'' ''Strontium'' 2 5,
     element 39 ''Y'' ''Yttrium'' 3 5,
     element 40 ''Zr'' ''Zirconium'' 4 5,
     element 41 ''Nb'' ''Niobium'' 5 5,
     element 42 ''Mo'' ''Molybdenum'' 6 5,
     element 43 ''Tc'' ''Technetium'' 7 5,
     element 44 ''Ru'' ''Ruthenium'' 8 5,
     element 45 ''Rh'' ''Rhodium'' 9 5,
     element 46 ''Pd'' ''Palladium'' 10 5,
     element 47 ''Ag'' ''Silver'' 11 5,
     element 48 ''Cd'' ''Cadmium'' 12 5,
     element 49 ''In'' ''Indium'' 13 5,
     element 50 ''Sn'' ''Tin'' 14 5,
     element 51 ''Sb'' ''Antimony'' 15 5,
     element 52 ''Te'' ''Tellurium'' 16 5,
     element 53 ''I'' ''Iodine'' 17 5,
     element 54 ''Xe'' ''Xenon'' 18 5,
     element 55 ''Cs'' ''Caesium'' 1 6,
     element 56 ''Ba'' ''Barium'' 2 6,
     element 57 ''La'' ''Lanthanum'' 3 6,
     element 58 ''Ce'' ''Cerium'' 3 6,
     element 59 ''Pr'' ''Praseodymium'' 3 6,
     element 60 ''Nd'' ''Neodymium'' 3 6,
     element 61 ''Pm'' ''Promethium'' 3 6,
     element 62 ''Sm'' ''Samarium'' 3 6,
     element 63 ''Eu'' ''Europium'' 3 6,
     element 64 ''Gd'' ''Gadolinium'' 3 6,
     element 65 ''Tb'' ''Terbium'' 3 6,
     element 66 ''Dy'' ''Dysprosium'' 3 6,
     element 67 ''Ho'' ''Holmium'' 3 6,
     element 68 ''Er'' ''Erbium'' 3 6,
     element 69 ''Tm'' ''Thulium'' 3 6,
     element 70 ''Yb'' ''Ytterbium'' 3 6,
     element 71 ''Lu'' ''Lutetium'' 3 6,
     element 72 ''Hf'' ''Hafnium'' 4 6,
     element 73 ''Ta'' ''Tantalum'' 5 6,
     element 74 ''W'' ''Tungsten'' 6 6,
     element 75 ''Re'' ''Rhenium'' 7 6,
     element 76 ''Os'' ''Osmium'' 8 6,
     element 77 ''Ir'' ''Iridium'' 9 6,
     element 78 ''Pt'' ''Platinum'' 10 6,
     element 79 ''Au'' ''Gold'' 11 6,
     element 80 ''Hg'' ''Mercury'' 12 6,
     element 81 ''Tl'' ''Thallium'' 13 6,
     element 82 ''Pb'' ''Lead'' 14 6,
     element 83 ''Bi'' ''Bismuth'' 15 6,
     element 84 ''Po'' ''Polonium'' 16 6,
     element 85 ''At'' ''Astatine'' 17 6,
     element 86 ''Rn'' ''Radon'' 18 6,
     element 87 ''Fr'' ''Francium'' 1 7,
     element 88 ''Ra'' ''Radium'' 2 7,
     element 89 ''Ac'' ''Actinium'' 3 7,
     element 90 ''Th'' ''Thorium'' 3 7,
     element 91 ''Pa'' ''Protactinium'' 3 7,
     element 92 ''U'' ''Uranium'' 3 7,
     element 93 ''Np'' ''Neptunium'' 3 7,
     element 94 ''Pu'' ''Plutonium'' 3 7,
     element 95 ''Am'' ''Americium'' 3 7,
     element 96 ''Cm'' ''Curium'' 3 7,
     element 97 ''Bk'' ''Berkelium'' 3 7,
     element 98 ''Cf'' ''Californium'' 3 7,
     element 99 ''Es'' ''Einsteinium'' 3 7,
     element 100 ''Fm'' ''Fermium'' 3 7,
     element 101 ''Md'' ''Mendelevium'' 3 7,
     element 102 ''No'' ''Nobelium'' 3 7,
     element 103 ''Lr'' ''Lawrencium'' 3 7,
     element 104 ''Rf'' ''Rutherfordium'' 4 7,
     element 105 ''Db'' ''Dubnium'' 5 7,
     element 106 ''Sg'' ''Seaborgium'' 6 7,
     element 107 ''Bh'' ''Bohrium'' 7 7,
     element 108 ''Hs'' ''Hassium'' 8 7,
     element 109 ''Mt'' ''Meitnerium'' 9 7,
     element 110 ''Ds'' ''Darmstadtium'' 10 7,
     element 111 ''Rg'' ''Roentgenium'' 11 7,
     element 112 ''Cn'' ''Copernicium'' 12 7,
     element 113 ''Nh'' ''Nihonium'' 13 7,
     element 114 ''Fl'' ''Flerovium'' 14 7,
     element 115 ''Mc'' ''Moscovium'' 15 7,
     element 116 ''Lv'' ''Livermorium'' 16 7,
     element 117 ''Ts'' ''Tennessine'' 17 7,
     element 118 ''Og'' ''Oganesson'' 18 7]"

section \<open>Positions: \<open>build_position_map\<close>, \<open>assign_f_block\<close>, \<open>build_cell_positions\<close>\<close>

text \<open>
  The position dictionary maps a pair (period, group) to an optional atomic number. It is
  an association list updated with \<open>AList.update\<close>, which like a Python assignment
  replaces the value of a key that is present and appends a new key at the end.
\<close>

type_synonym pos_map = "((int \<times> int) \<times> int option) list"

definition is_f_block :: "int \<Rightarrow> bool" where
  "is_f_block n = ((57 \<le> n \<and> n \<le> 71) \<or> (89 \<le> n \<and> n \<le> 103))"

definition init_positions :: pos_map where
  "init_positions =
     fold (\<lambda>p pos. fold (\<lambda>g pos. AList.update (p, g) None pos) [1..18] pos) [1..7] []"

definition place_element :: "meta \<Rightarrow> pos_map \<Rightarrow> pos_map" where
  "place_element elem pos =
     (if is_f_block (meta_z elem) then pos
      else AList.update (meta_period elem, meta_group elem) (Some (meta_z elem)) pos)"

definition build_position_map :: pos_map where
  "build_position_map = fold place_element PERIODIC_TABLE init_positions"

definition assign_f_block :: "int list \<times> int list" where
  "assign_f_block =
     (let lanths = map meta_z (filter (\<lambda>elem. 57 \<le> meta_z elem \<and> meta_z elem \<le> 71) PERIODIC_TABLE);
          actins = map meta_z (filter (\<lambda>elem. 89 \<le> meta_z elem \<and> meta_z elem \<le> 103) PERIODIC_TABLE)
      in (lanths, actins))"

definition build_cell_positions :: pos_map where
  "build_cell_positions =
     AList.update (7, 3) None (AList.update (6, 3) None build_position_map)"

text \<open>\<open>pos_map.get(key)\<close>: \<open>None\<close> for a missing key and for a key that holds \<open>None\<close>.\<close>

definition pos_get :: "pos_map \<Rightarrow> int \<times> int \<Rightarrow> int option" where
  "pos_get pos k = (case map_of pos k of None \<Rightarrow> None | Some v \<Rightarrow> v)"

section \<open>Merging: \<open>assemble_elements\<close>\<close>

record Sample =
  value' :: string
  state :: string
  color :: string

record SheetElement =
  z :: int
  symbol :: string
  name :: string
  samples :: "Sample list"

definition empty_sample :: Sample where
  "empty_sample = \<lparr>value' = [], state = [], color = []\<rparr>"

text \<open>The first loop: the dictionary from trimmed symbol to entry; a later entry replaces
  an earlier one with the same symbol, an entry with an empty symbol is skipped.\<close>

definition entry_sym :: "entry_json \<Rightarrow> string" where
  "entry_sym entry = py_strip (py_str (get_or_empty (j_symbol entry)))"

definition add_entry :: "entry_json \<Rightarrow> (string \<times> entry_json) list \<Rightarrow> (string \<times> entry_json) list" where
  "add_entry entry sheet_map =
     (let sym = entry_sym entry
      in if sym = [] then sheet_map else AList.update sym entry sheet_map)"

definition build_sheet_map :: "payload \<Rightarrow> (string \<times> entry_json) list" where
  "build_sheet_map data =
     fold add_entry (case p_elements data of None \<Rightarrow> [] | Some es \<Rightarrow> es) []"

text \<open>The body of the loop over the samples of an entry.\<close>

definition make_sample :: "(string \<times> string) list \<Rightarrow> sample_json \<Rightarrow> Sample" where
  "make_sample label_colors s =
     (let val = get_or_empty (j_value s);
          val = (if val = JNull then JStr [] else val);
          val_str = py_str val;
          st = py_strip (py_str (get_or_empty (j_state s)));
          clr = py_strip (py_str (get_or_empty (j_color s)));
          clr = (if st \<noteq> [] \<and> clr = []
                 then (case map_of label_colors st of None \<Rightarrow> [] | Some c \<Rightarrow> c)
                 else clr)
      in \<lparr>value' = val_str, state = st, color = clr\<rparr>)"

text \<open>\<open>while len(samples_info) < 4: samples_info.append(Sample("", "", ""))\<close>.\<close>

function ensure_four :: "Sample list \<Rightarrow> Sample list" where
  "ensure_four samples_info =
     (if length samples_info < 4 then ensure_four (samples_info @ [empty_sample])
      else samples_info)"
  by pat_completeness auto
termination
  by (relation "measure (\<lambda>samples_info. 4 - length samples_info)") auto

declare ensure_four.simps [simp del]

text \<open>
  The body of the loop over \<open>PERIODIC_TABLE\<close>. An entry found in \<open>sheet_map\<close> is a
  dictionary with the key \<open>symbol\<close>, hence true in \<open>if entry\<close>; the test is that of
  the lookup having found one.
\<close>

definition assemble_one :: "(string \<times> entry_json) list \<Rightarrow> (string \<times> string) list \<Rightarrow> meta \<Rightarrow> SheetElement" where
  "assemble_one sheet_map label_colors meta =
     (let sym = meta_symbol meta;
          nm = meta_name meta;
          n = meta_z meta;
          samples_info =
            (case map_of sheet_map sym of
               Some entry \<Rightarrow>
                 map (make_sample label_colors)
                   (case j_samples entry of None \<Rightarrow> [] | Some ss \<Rightarrow> ss)
             | None \<Rightarrow> replicate 4 empty_sample)
      in \<lparr>z = n, symbol = sym, name = nm, samples = ensure_four samples_info\<rparr>)"

definition assemble_elements :: "payload \<Rightarrow> (string \<times> string) list \<Rightarrow> SheetElement list" where
  "assemble_elements data label_colors =
     map (assemble_one (build_sheet_map data) label_colors) PERIODIC_TABLE"

text \<open>What the two passes do to one character: lowercase it, then dash it.\<close>

definition tag_char :: "char \<Rightarrow> char" where
  "tag_char c = dash_char (py_lower_char c)"

section \<open>Rendering: \<open>render_html\<close>\<close>

datatype error = IndexError

definition dq :: string where
  "dq = [CHR 0x22]"

definition nl :: string where
  "nl = [CHR 0x0A]"

text \<open>\<open>html.escape(s, quote=True)\<close>; its five replacements act on single characters.\<close>

definition esc_char :: "char \<Rightarrow> string" where
  "esc_char c =
     (if c = CHR ''&'' then ''&amp;''
      else if c = CHR ''<'' then ''&lt;''
      else if c = CHR ''>'' then ''&gt;''
      else if c = CHR 0x22 then ''&quot;''
      else if c = CHR 0x27 then ''&#x27;''
      else [c])"

definition esc :: "string \<Rightarrow> string" where
  "esc s = concat (map esc_char s)"

definition render_sample_quarter :: "Sample \<Rightarrow> int \<Rightarrow> string" where
  "render_sample_quarter sample idx =
     (let bg = (if color sample \<noteq> [] then color sample else ''#eaeaea'');
          label_index = str_int (idx + 1);
          tooltip_parts =
            (if state sample \<noteq> [] then [esc (state sample)] else []) @
            (if value' sample \<noteq> [] then [esc (value' sample)] else []);
          tip_text = (if tooltip_parts \<noteq> [] then esc (py_join '' | '' tooltip_parts) else []);
          state_class = (if state sample \<noteq> [] then '' state-'' @ sanitize_label (state sample) else []);
          data_state = (if state sample \<noteq> [] then sanitize_label (state sample) else [])
      in ''<div class='' @ dq @ ''quarter'' @ state_class @ dq @
         '' style='' @ dq @ ''background:'' @ esc bg @ dq @ '' '' @
         ''data-state='' @ dq @ esc data_state @ dq @
         '' data-tip='' @ dq @ tip_text @ dq @
         ''><span class='' @ dq @ ''sidx'' @ dq @ ''>'' @ esc label_index @ ''</span></div>'')"

text \<open>The line of the cell tooltip for sample \<open>i\<close> (counted from 0), if it has any part.\<close>

definition tooltip_line :: "nat \<times> Sample \<Rightarrow> string list" where
  "tooltip_line p =
     (case p of (i, s) \<Rightarrow>
        (let parts = (if state s \<noteq> [] then [state s] else []) @
                     (if value' s \<noteq> [] then [value' s] else [])
         in if parts \<noteq> [] then [str_int (int i + 1) @ '': '' @ py_join ''; '' parts] else []))"

text \<open>
  The cell of an element that was found. \<open>e.samples[i]\<close> for \<open>i\<close> in \<open>range(4)\<close> raises
  \<open>IndexError\<close> on a list of fewer than four samples.
\<close>

definition element_cell :: "SheetElement \<Rightarrow> error + string" where
  "element_cell e =
     (let tooltip_lines =
            [esc (name e), ''Z='' @ str_int (z e)] @
            concat (map tooltip_line (List.enumerate 0 (samples e)));
          tip = esc (py_join nl tooltip_lines)
      in if length (samples e) < 4 then Inl IndexError
         else
           (let quarters = concat (map (\<lambda>i. render_sample_quarter (samples e ! nat i) i) [0..3])
            in Inr (''<div class='' @ dq @ ''cell element'' @ dq @ '' data-tip='' @ dq @ tip @ dq @
                    '' data-z='' @ dq @ str_int (z e) @ dq @ ''>'' @
                    ''<div class='' @ dq @ ''number'' @ dq @ ''>'' @ str_int (z e) @ ''</div>'' @
                    ''<div class='' @ dq @ ''symbol'' @ dq @ ''>'' @ esc (symbol e) @ ''</div>'' @
                    ''<div class='' @ dq @ ''samples'' @ dq @ ''>'' @ quarters @ ''</div>'' @
                    ''</div>'')))"

definition empty_cell :: string where
  "empty_cell = ''<div class='' @ dq @ ''cell empty'' @ dq @ ''></div>''"

definition spacer_cell :: string where
  "spacer_cell = ''<div class='' @ dq @ ''cell spacer empty'' @ dq @ ''></div>''"

text \<open>The atomic number the loop body holds in \<open>z\<close> for a cell outside row 8.\<close>

definition cell_z :: "pos_map \<Rightarrow> int list \<Rightarrow> int list \<Rightarrow> int \<Rightarrow> int \<Rightarrow> int option" where
  "cell_z pos lanths actins row col =
     (let n = None;
          n = (if row \<le> 7 then pos_get pos (row, col) else n);
          n = (if row = 9 \<and> 4 \<le> col \<and> col \<le> 18
               then (let idx = col - 4 in if idx < int (length lanths) then Some (lanths ! nat idx) else n)
               else n);
          n = (if row = 10 \<and> 4 \<le> col \<and> col \<le> 18
               then (let idx = col - 4 in if idx < int (length actins) then Some (actins ! nat idx) else n)
               else n)
      in n)"

text \<open>\<open>{e.z: e for e in elements}\<close>.\<close>

definition elem_by_z :: "SheetElement list \<Rightarrow> (int \<rightharpoonup> SheetElement)" where
  "elem_by_z elements = fold (\<lambda>e m. m(z e \<mapsto> e)) elements Map.empty"

text \<open>One pass of the body of the loop over rows and columns: the cell it appends.\<close>

definition render_cell ::
  "(int \<rightharpoonup> SheetElement) \<Rightarrow> pos_map \<Rightarrow> int list \<Rightarrow> int list \<Rightarrow> int \<Rightarrow> int \<Rightarrow> error + string" where
  "render_cell by_z pos lanths actins row col =
     (if row = 8 then Inr spacer_cell
      else
        (case cell_z pos lanths actins row col of
           None \<Rightarrow> Inr empty_cell
         | Some n \<Rightarrow>
             (case by_z n of
                None \<Rightarrow> Inr empty_cell
              | Some e \<Rightarrow> element_cell e)))"

text \<open>The results of a loop in order, up to the first exception.\<close>

fun collect :: "(error + 'a) list \<Rightarrow> error + 'a list" where
  "collect [] = Inr []"
| "collect (Inl err # rs) = Inl err"
| "collect (Inr x # rs) = (case collect rs of Inl err \<Rightarrow> Inl err | Inr xs \<Rightarrow> Inr (x # xs))"

definition grid :: "(int \<times> int) list" where
  "grid = concat (map (\<lambda>row. map (\<lambda>col. (row, col)) [1..18]) [1..10])"

definition cells_html :: "SheetElement list \<Rightarrow> error + string list" where
  "cells_html elements =
     (let by_z = elem_by_z elements;
          pos = build_cell_positions;
          lanths = fst assign_f_block;
          actins = snd assign_f_block
      in collect (map (\<lambda>(row, col). render_cell by_z pos lanths actins row col) grid))"

definition legend_order :: "payload \<Rightarrow> (string \<times> string) list" where
  "legend_order data =
     (let label_colors = (case p_labelColors data of None \<Rightarrow> [] | Some lc \<Rightarrow> lc)
      in case p_legend data of
           Some legend \<Rightarrow> map (\<lambda>(clr, label). (label, clr)) legend
         | None \<Rightarrow> map (\<lambda>(label, clr). (label, clr)) label_colors)"

definition legend_item :: "string \<times> string \<Rightarrow> string" where
  "legend_item p =
     (case p of (label, clr) \<Rightarrow>
        (let color_hex = clr;
             state_id = sanitize_label label
         in ''<div class='' @ dq @ ''legend-item'' @ dq @ '' data-state='' @ dq @ esc state_id @ dq @
            ''><span class='' @ dq @ ''legend-colour'' @ dq @ '' '' @
            ''style='' @ dq @ ''background:'' @ esc color_hex @ dq @ ''></span>'' @ esc label @
            ''</div>''))"

definition legend_html :: "payload \<Rightarrow> string list" where
  "legend_html data = map legend_item (filter (\<lambda>(label, clr). label \<noteq> []) (legend_order data))"

text \<open>\<open>json.dumps\<close> with its defaults, on the strings and objects of the script.\<close>

definition hex_digit :: "nat \<Rightarrow> char" where
  "hex_digit d = (if d < 10 then char_of (48 + d) else char_of (87 + d))"

definition json_escape_char :: "char \<Rightarrow> string" where
  "json_escape_char c =
     (let n = (of_char c :: nat) in
        if n = 34 then [CHR 0x5C, CHR 0x22]
        else if n = 92 then [CHR 0x5C, CHR 0x5C]
        else if n = 10 then [CHR 0x5C, CHR ''n'']
        else if n = 13 then [CHR 0x5C, CHR ''r'']
        else if n = 9 then [CHR 0x5C, CHR ''t'']
        else if n = 8 then [CHR 0x5C, CHR ''b'']
        else if n = 12 then [CHR 0x5C, CHR ''f'']
        else if 32 \<le> n \<and> n \<le> 126 then [c]
        else [CHR 0x5C, CHR ''u'', CHR ''0'', CHR ''0'', hex_digit (n div 16), hex_digit (n mod 16)])"

definition json_string :: "string \<Rightarrow> string" where
  "json_string s = dq @ concat (map json_escape_char s) @ dq"

definition sample_js :: "Sample \<Rightarrow> string" where
  "sample_js s =
     ''{'' @ json_string ''state'' @ '': '' @ json_string (state s) @ '', '' @
     json_string ''value'' @ '': '' @ json_string (value' s) @ ''}''"

definition elements_js_entry :: "SheetElement \<Rightarrow> string" where
  "elements_js_entry elem =
     str_int (z elem) @ '': '' @
     ''{'' @ json_string ''z'' @ '': '' @ str_int (z elem) @ '', '' @
     json_string ''symbol'' @ '': '' @ json_string (symbol elem) @ '', '' @
     json_string ''name'' @ '': '' @ json_string (name elem) @ '', '' @
     json_string ''samples'' @ '': ['' @ py_join '', '' (map sample_js (samples elem)) @ '']}''"

definition elements_js_object :: "SheetElement list \<Rightarrow> string" where
  "elements_js_object elements =
     ''{'' @ nl @ ''    '' @ py_join ('','' @ nl @ ''    '') (map elements_js_entry elements) @
     nl @ ''  }''"

text \<open>
  The document. The stylesheet \<open>css\<close> and the fixed text \<open>js\<close> of the script after the
  line of \<open>elementsData\<close> are constants of the source that depend on no input; they are
  parameters here. \<open>html_document\<close> is the list \<open>html_parts\<close> joined by newlines.
\<close>

definition html_document ::
  "string \<Rightarrow> string \<Rightarrow> string \<Rightarrow> string list \<Rightarrow> string \<Rightarrow> SheetElement list \<Rightarrow> string" where
  "html_document css js title cells legend_block elements =
     (let script = nl @ ''<script>'' @ nl @ ''const elementsData = '' @
                   elements_js_object elements @ '';'' @ js
      in py_join nl
           [''<!doctype html>'',
            ''<html lang='' @ dq @ ''en'' @ dq @ ''>'',
            ''<head>'',
            ''  <meta charset='' @ dq @ ''utf-8'' @ dq @ ''>'',
            ''  <meta name='' @ dq @ ''viewport'' @ dq @ '' content='' @ dq @
              ''width=device-width, initial-scale=1'' @ dq @ ''>'',
            ''  <title>'' @ esc title @ ''</title>'',
            ''  <style>'' @ css @ ''</style>'',
            ''</head>'',
            ''<body>'',
            ''  <h1>'' @ esc title @ ''</h1>'',
            ''  <div class='' @ dq @ ''table'' @ dq @ ''>'',
            ''    '' @ concat cells,
            ''  </div>'',
            ''  <div class='' @ dq @ ''legend'' @ dq @ ''>'',
            ''    '' @ legend_block,
            ''  </div>'',
            ''  <div id='' @ dq @ ''overlay'' @ dq @ '' class='' @ dq @ ''overlay'' @ dq @ ''></div>'',
            ''  <div id='' @ dq @ ''popup'' @ dq @ '' class='' @ dq @ ''popup'' @ dq @ ''></div>'',
            script,
            ''</body>'',
            ''</html>''])"

definition render_html :: "string \<Rightarrow> string \<Rightarrow> SheetElement list \<Rightarrow> payload \<Rightarrow> string \<Rightarrow> error + string" where
  "render_html css js elements data title =
     (case cells_html elements of
        Inl err \<Rightarrow> Inl err
      | Inr cells \<Rightarrow>
          (let legend_block = concat (legend_html data)
           in Inr (html_document css js title cells legend_block elements)))"

text \<open>The merge and render steps of \<open>main\<close>.\<close>

definition pipeline :: "string \<Rightarrow> string \<Rightarrow> payload \<Rightarrow> string \<Rightarrow> error + string" where
  "pipeline css js data title =
     (let label_colors = (case p_labelColors data of None \<Rightarrow> [] | Some lc \<Rightarrow> lc);
          elements = assemble_elements data label_colors
      in render_html css js elements data title)"

section \<open>Notions and inputs used in the statements\<close>

text \<open>The atomic numbers held by the main grid, in the order of its dictionary.\<close>

definition main_grid_ids :: "int list" where
  "main_grid_ids = List.map_filter snd build_cell_positions"

text \<open>All placements: the main grid, then the two rows of the f block.\<close>

definition placed_ids :: "int list" where
  "placed_ids = main_grid_ids @ fst assign_f_block @ snd assign_f_block"

text \<open>An entry with symbol \<open>sym\<close> and the given samples, all three keys present.\<close>

definition sample_of :: "string \<Rightarrow> string \<Rightarrow> string \<Rightarrow> sample_json" where
  "sample_of v st c = \<lparr>j_value = Some (JStr v), j_state = Some (JStr st), j_color = Some (JStr c)\<rparr>"

definition entry_of :: "string \<Rightarrow> sample_json list \<Rightarrow> entry_json" where
  "entry_of s ss = \<lparr>j_symbol = Some (JStr s), j_samples = Some ss\<rparr>"

definition payload_of :: "entry_json list \<Rightarrow> payload" where
  "payload_of es = \<lparr>p_elements = Some es, p_legend = None, p_labelColors = None\<rparr>"

text \<open>A payload whose entry for hydrogen has five samples.\<close>

definition five_samples :: payload where
  "five_samples =
     payload_of [entry_of ''H''
       [sample_of ''a'' [] [], sample_of ''b'' [] [], sample_of ''c'' [] [],
        sample_of ''d'' [] [], sample_of ''e'' [] []]]"

text \<open>The payload of the example with one sample of hydrogen, and its legend.\<close>

definition one_sample :: payload where
  "one_sample =
     \<lparr>p_elements = Some [entry_of ''H'' [sample_of ''A1'' ''in arrivo'' []]],
      p_legend = None,
      p_labelColors = Some [(''in arrivo'', ''#00ff00'')]\<rparr>"

text \<open>The payload with no entity and empty legends.\<close>

definition empty_payload :: payload where
  "empty_payload = \<lparr>p_elements = Some [], p_legend = Some [], p_labelColors = Some []\<rparr>"

text \<open>An element without any sample data, and what is rendered for it: a quarter in the
  fallback colour with empty tag and tooltip, and a cell of four such quarters.\<close>

definition blank_element :: "meta \<Rightarrow> SheetElement" where
  "blank_element m =
     \<lparr>z = meta_z m, symbol = meta_symbol m, name = meta_name m,
      samples = [empty_sample, empty_sample, empty_sample, empty_sample]\<rparr>"

definition neutral_quarter :: "int \<Rightarrow> string" where
  "neutral_quarter idx =
     ''<div class='' @ dq @ ''quarter'' @ dq @ '' style='' @ dq @ ''background:#eaeaea'' @ dq @
     '' data-state='' @ dq @ dq @ '' data-tip='' @ dq @ dq @
     ''><span class='' @ dq @ ''sidx'' @ dq @ ''>'' @ str_int (idx + 1) @ ''</span></div>''"

definition blank_cell :: "meta \<Rightarrow> string" where
  "blank_cell m =
     ''<div class='' @ dq @ ''cell element'' @ dq @ '' data-tip='' @ dq @
     esc (esc (meta_name m) @ nl @ ''Z='' @ str_int (meta_z m)) @ dq @
     '' data-z='' @ dq @ str_int (meta_z m) @ dq @ ''>'' @
     ''<div class='' @ dq @ ''number'' @ dq @ ''>'' @ str_int (meta_z m) @ ''</div>'' @
     ''<div class='' @ dq @ ''symbol'' @ dq @ ''>'' @ esc (meta_symbol m) @ ''</div>'' @
     ''<div class='' @ dq @ ''samples'' @ dq @ ''>'' @
     neutral_quarter 0 @ neutral_quarter 1 @ neutral_quarter 2 @ neutral_quarter 3 @
     ''</div>'' @ ''</div>''"

text \<open>The cell at a place of the grid when no element has sample data.\<close>

definition blank_grid_cell :: "int \<times> int \<Rightarrow> string" where
  "blank_grid_cell p =
     (case p of (row, col) \<Rightarrow>
        if row = 8 then spacer_cell
        else (case cell_z build_cell_positions (fst assign_f_block) (snd assign_f_block) row col of
                None \<Rightarrow> empty_cell
              | Some n \<Rightarrow> blank_cell (PERIODIC_TABLE ! nat (n - 1))))"

section \<open>Properties of \<open>sanitize_label\<close>\<close>

lemma of_char_lowered:
  fixes n :: nat
  assumes "n \<le> 222"
  shows "(of_char (char_of (n + 32)) :: nat) = n + 32"
proof -
  have "(n + 32) mod 256 = n + 32"
    using assms by simp
  then show ?thesis
    by (simp only: of_char_of)
qed

lemma py_lower_char_idem: "py_lower_char (py_lower_char c) = py_lower_char c"
proof -
  define n where "n = (of_char c :: nat)"
  show ?thesis
  proof (cases "(65 \<le> n \<and> n \<le> 90) \<or> (192 \<le> n \<and> n \<le> 214) \<or> (216 \<le> n \<and> n \<le> 222)")
    case True
    then have "n \<le> 222" by linarith
    then have m: "(of_char (char_of (n + 32)) :: nat) = n + 32"
      by (rule of_char_lowered)
    have up: "py_lower_char c = char_of (n + 32)"
      using True unfolding py_lower_char_def Let_def n_def by (rule if_P)
    have "\<not> ((65 \<le> n + 32 \<and> n + 32 \<le> 90) \<or> (192 \<le> n + 32 \<and> n + 32 \<le> 214)
        \<or> (216 \<le> n + 32 \<and> n + 32 \<le> 222))"
      using True by linarith
    then have "py_lower_char (char_of (n + 32)) = char_of (n + 32)"
      unfolding py_lower_char_def Let_def m by (rule if_not_P)
    then show ?thesis
      by (simp only: up)
  next
    case False
    then have "py_lower_char c = c"
      unfolding py_lower_char_def Let_def n_def by (rule if_not_P)
    then show ?thesis by simp
  qed
qed

lemma py_lower_char_dash: "py_lower_char CHR ''-'' = CHR ''-''"
  by (simp add: py_lower_char_def)

lemma py_isalnum_dash: "\<not> py_isalnum CHR ''-''"
  by (simp add: py_isalnum_def)

lemma dash_char_idem: "dash_char (dash_char c) = dash_char c"
  by (simp add: dash_char_def py_isalnum_dash)

lemma tag_char_idem: "tag_char (tag_char c) = tag_char c"
  by (simp add: tag_char_def dash_char_def py_lower_char_idem py_lower_char_dash
      py_isalnum_dash)

lemma sanitize_label_tag_char:
  "sanitize_label x = py_strip_chars ''-'' (map tag_char x)"
proof -
  have "map dash_char (map py_lower_char x) = map tag_char x"
    by (induction x) (simp_all add: tag_char_def)
  then show ?thesis
    by (simp only: sanitize_label_def py_lower_def)
qed

lemma set_py_strip_chars: "c \<in> set (py_strip_chars cs s) \<Longrightarrow> c \<in> set s"
proof -
  assume "c \<in> set (py_strip_chars cs s)"
  then have "c \<in> set (dropWhile (\<lambda>c. c \<in> set cs) (rev (dropWhile (\<lambda>c. c \<in> set cs) s)))"
    by (simp add: py_strip_chars_def)
  then have "c \<in> set (rev (dropWhile (\<lambda>c. c \<in> set cs) s))"
    by (rule set_dropWhileD)
  then have "c \<in> set (dropWhile (\<lambda>c. c \<in> set cs) s)"
    by simp
  then show ?thesis
    by (rule set_dropWhileD)
qed

text \<open>Stripping at the end keeps a list that does not start with a stripped character so.\<close>

lemma dropWhile_rstrip:
  assumes "dropWhile P u = u"
  shows "dropWhile P (rev (dropWhile P (rev u))) = rev (dropWhile P (rev u))"
  using assms
proof (induction u rule: rev_induct)
  case Nil
  then show ?case by simp
next
  case (snoc x xs)
  show ?case
  proof (cases "P x")
    case True
    have "xs \<noteq> []"
    proof
      assume "xs = []"
      with snoc.prems True show False by simp
    qed
    moreover have "\<not> P (hd (xs @ [x]))"
      using snoc.prems by (simp add: dropWhile_eq_self_iff)
    ultimately have "\<not> P (hd xs)" by simp
    then have "dropWhile P xs = xs"
      by (simp add: dropWhile_eq_self_iff)
    then have "dropWhile P (rev (dropWhile P (rev xs))) = rev (dropWhile P (rev xs))"
      by (rule snoc.IH)
    then show ?thesis using True by simp
  next
    case False
    then show ?thesis using snoc.prems by simp
  qed
qed

lemma py_strip_chars_idem:
  "py_strip_chars cs (py_strip_chars cs s) = py_strip_chars cs s"
proof -
  let ?P = "\<lambda>c. c \<in> set cs"
  let ?u = "dropWhile ?P s"
  have "dropWhile ?P ?u = ?u" by simp
  then have "dropWhile ?P (rev (dropWhile ?P (rev ?u))) = rev (dropWhile ?P (rev ?u))"
    by (rule dropWhile_rstrip)
  then show ?thesis
    by (simp add: py_strip_chars_def)
qed

lemma map_tag_char_fixed:
  "\<forall>c \<in> set ys. tag_char c = c \<Longrightarrow> map tag_char ys = ys"
  by (induction ys) auto

text \<open>
  C8. The filter-tag normalisation is idempotent: applied to its own output it returns
  that output.
\<close>

theorem sanitize_label_idempotent:
  "sanitize_label (sanitize_label x) = sanitize_label x"
proof -
  let ?ys = "py_strip_chars ''-'' (map tag_char x)"
  have "\<forall>c \<in> set ?ys. tag_char c = c"
  proof
    fix c assume "c \<in> set ?ys"
    then have "c \<in> set (map tag_char x)"
      by (rule set_py_strip_chars)
    then obtain d where "c = tag_char d"
      by auto
    then show "tag_char c = c"
      by (simp add: tag_char_idem)
  qed
  then have "map tag_char ?ys = ?ys"
    by (rule map_tag_char_fixed)
  then show ?thesis
    by (simp add: sanitize_label_tag_char py_strip_chars_idem)
qed

lemma tag_char_cases: "tag_char c = CHR ''-'' \<or> (py_isalnum (tag_char c) \<and> py_lower_char (tag_char c) = tag_char c)"
  by (auto simp: tag_char_def dash_char_def py_lower_char_idem)

lemma hd_py_strip_chars:
  "py_strip_chars cs s \<noteq> [] \<Longrightarrow> hd (py_strip_chars cs s) \<notin> set cs"
proof -
  let ?P = "\<lambda>c. c \<in> set cs"
  let ?u = "dropWhile ?P s"
  assume ne: "py_strip_chars cs s \<noteq> []"
  have "dropWhile ?P ?u = ?u" by simp
  then have "dropWhile ?P (rev (dropWhile ?P (rev ?u))) = rev (dropWhile ?P (rev ?u))"
    by (rule dropWhile_rstrip)
  then have "dropWhile ?P (py_strip_chars cs s) = py_strip_chars cs s"
    by (simp add: py_strip_chars_def)
  with ne show ?thesis
    by (simp add: dropWhile_eq_self_iff)
qed

lemma last_py_strip_chars:
  "py_strip_chars cs s \<noteq> [] \<Longrightarrow> last (py_strip_chars cs s) \<notin> set cs"
proof -
  let ?P = "\<lambda>c. c \<in> set cs"
  let ?t = "dropWhile ?P (rev (dropWhile ?P s))"
  assume ne: "py_strip_chars cs s \<noteq> []"
  then have "?t \<noteq> []"
    by (simp add: py_strip_chars_def)
  then have "\<not> ?P (hd ?t)"
    by (rule hd_dropWhile)
  moreover have "last (py_strip_chars cs s) = hd ?t"
    using \<open>?t \<noteq> []\<close> by (simp add: py_strip_chars_def last_rev)
  ultimately show ?thesis by simp
qed

lemma py_strip_chars_id:
  assumes "s \<noteq> []" "hd s \<notin> set cs" "last s \<notin> set cs"
  shows "py_strip_chars cs s = s"
proof -
  have "dropWhile (\<lambda>c. c \<in> set cs) s = s"
    using assms by (simp add: dropWhile_eq_self_iff)
  moreover have "dropWhile (\<lambda>c. c \<in> set cs) (rev s) = rev s"
    using assms by (simp add: dropWhile_eq_self_iff hd_rev)
  ultimately show ?thesis
    by (simp add: py_strip_chars_def)
qed

text \<open>
  C2, as the claim states it, fails: the two labels of the claim get different tags,
  since a run of three spaces becomes three dashes.
\<close>

theorem sanitize_label_runs_counterexample:
  "sanitize_label ''Da Comprare!'' \<noteq> sanitize_label ''da   comprare''"
  by code_simp

text \<open>
  C2, amended. The normalisation lowercases its input, replaces every character that is
  not alphanumeric by one dash (a run of such characters is not collapsed) and strips
  the dashes at both ends: the output consists of dashes and lowercase alphanumeric
  characters, neither starts nor ends with a dash, and an input that starts and ends
  with an alphanumeric character keeps its length. \<open>Da Comprare!\<close> and
  \<open>da comprare\<close> (one space) both give \<open>da-comprare\<close>, while \<open>da   comprare\<close>
  (three spaces) gives \<open>da---comprare\<close>.
\<close>

theorem sanitize_label_per_character:
  "sanitize_label ''Da Comprare!'' = ''da-comprare'' \<and>
   sanitize_label ''da comprare'' = ''da-comprare'' \<and>
   sanitize_label ''da   comprare'' = ''da---comprare'' \<and>
   sanitize_label x = py_strip_chars ''-'' (map (\<lambda>c. dash_char (py_lower_char c)) x) \<and>
   (\<forall>c \<in> set (sanitize_label x). c = CHR ''-'' \<or> (py_isalnum c \<and> py_lower_char c = c)) \<and>
   (sanitize_label x \<noteq> [] \<longrightarrow>
      hd (sanitize_label x) \<noteq> CHR ''-'' \<and> last (sanitize_label x) \<noteq> CHR ''-'') \<and>
   (x \<noteq> [] \<and> py_isalnum (py_lower_char (hd x)) \<and> py_isalnum (py_lower_char (last x)) \<longrightarrow>
      sanitize_label x = map (\<lambda>c. dash_char (py_lower_char c)) x \<and>
      length (sanitize_label x) = length x)"
proof -
  have ex1: "sanitize_label ''Da Comprare!'' = ''da-comprare''"
    by code_simp
  have ex2: "sanitize_label ''da comprare'' = ''da-comprare''"
    by code_simp
  have ex3: "sanitize_label ''da   comprare'' = ''da---comprare''"
    by code_simp
  have fn: "(\<lambda>c. dash_char (py_lower_char c)) = tag_char"
    by (rule ext) (simp add: tag_char_def)
  have shape: "sanitize_label x = py_strip_chars ''-'' (map tag_char x)"
    by (rule sanitize_label_tag_char)
  have chars: "\<forall>c \<in> set (sanitize_label x). c = CHR ''-'' \<or> (py_isalnum c \<and> py_lower_char c = c)"
  proof
    fix c assume "c \<in> set (sanitize_label x)"
    then have "c \<in> set (map tag_char x)"
      unfolding shape by (rule set_py_strip_chars)
    then obtain d where "c = tag_char d"
      by auto
    then show "c = CHR ''-'' \<or> (py_isalnum c \<and> py_lower_char c = c)"
      using tag_char_cases [of d] by simp
  qed
  have ends: "sanitize_label x \<noteq> [] \<longrightarrow>
      hd (sanitize_label x) \<noteq> CHR ''-'' \<and> last (sanitize_label x) \<noteq> CHR ''-''"
    unfolding shape
    using hd_py_strip_chars [of "''-''" "map tag_char x"]
      last_py_strip_chars [of "''-''" "map tag_char x"]
    by simp
  have keep: "x \<noteq> [] \<and> py_isalnum (py_lower_char (hd x)) \<and> py_isalnum (py_lower_char (last x)) \<longrightarrow>
      sanitize_label x = map tag_char x \<and> length (sanitize_label x) = length x"
  proof
    assume a: "x \<noteq> [] \<and> py_isalnum (py_lower_char (hd x)) \<and> py_isalnum (py_lower_char (last x))"
    then have ne: "map tag_char x \<noteq> []"
      by simp
    have h: "hd (map tag_char x) \<notin> set ''-''"
      using a py_isalnum_dash by (auto simp: hd_map tag_char_def dash_char_def)
    have l: "last (map tag_char x) \<notin> set ''-''"
      using a py_isalnum_dash by (auto simp: last_map tag_char_def dash_char_def)
    have "py_strip_chars ''-'' (map tag_char x) = map tag_char x"
      using ne h l by (rule py_strip_chars_id)
    then show "sanitize_label x = map tag_char x \<and> length (sanitize_label x) = length x"
      by (simp add: shape)
  qed
  show ?thesis
    using ex1 ex2 ex3 shape chars ends keep unfolding fn by blast
qed

theorem sanitize_label_per_character_witness:
  "sanitize_label ''da   comprare'' \<noteq> [] \<and>
   hd (sanitize_label ''da   comprare'') \<noteq> CHR ''-'' \<and>
   last (sanitize_label ''da   comprare'') \<noteq> CHR ''-'' \<and>
   ''da   comprare'' \<noteq> [] \<and>
   py_isalnum (py_lower_char (hd ''da   comprare'')) \<and>
   py_isalnum (py_lower_char (last ''da   comprare'')) \<and>
   length (sanitize_label ''da   comprare'') = 13"
proof -
  have ne: "sanitize_label ''da   comprare'' \<noteq> []"
    by code_simp
  have h: "py_isalnum (py_lower_char (hd ''da   comprare''))"
    by code_simp
  have l: "py_isalnum (py_lower_char (last ''da   comprare''))"
    by code_simp
  show ?thesis
    using ne h l sanitize_label_per_character [of "''da   comprare''"] by simp
qed

section \<open>Properties of \<open>assemble_elements\<close>\<close>

lemma ensure_four_eq:
  "ensure_four xs = xs @ replicate (4 - length xs) empty_sample"
proof (induction xs rule: ensure_four.induct)
  case (1 xs)
  show ?case
  proof (cases "length xs < 4")
    case True
    then have "ensure_four xs = ensure_four (xs @ [empty_sample])"
      by (subst ensure_four.simps) simp
    also have "\<dots> = (xs @ [empty_sample]) @ replicate (4 - length (xs @ [empty_sample])) empty_sample"
      using True by (rule "1.IH")
    also have "\<dots> = xs @ replicate (Suc (3 - length xs)) empty_sample"
      by simp
    also have "Suc (3 - length xs) = 4 - length xs"
      using True by arith
    finally show ?thesis .
  next
    case False
    then show ?thesis
      by (subst ensure_four.simps) simp
  qed
qed

lemma length_PERIODIC_TABLE: "length PERIODIC_TABLE = 118"
  by (simp add: PERIODIC_TABLE_def)

lemma z_PERIODIC_TABLE: "map meta_z PERIODIC_TABLE = [1..118]"
  by code_simp

lemma z_assemble_one: "z (assemble_one sm lc m) = meta_z m"
  by (simp add: assemble_one_def Let_def)

lemma symbol_assemble_one: "symbol (assemble_one sm lc m) = meta_symbol m"
  by (simp add: assemble_one_def Let_def)

lemma samples_assemble_one:
  "samples (assemble_one sm lc m) =
     (let given = (case map_of sm (meta_symbol m) of
                     None \<Rightarrow> []
                   | Some entry \<Rightarrow> map (make_sample lc) (case j_samples entry of None \<Rightarrow> [] | Some ss \<Rightarrow> ss))
      in given @ replicate (4 - length given) empty_sample)"
  by (simp add: assemble_one_def Let_def ensure_four_eq split: option.splits)

lemma length_assemble_elements: "length (assemble_elements data lc) = 118"
  by (simp add: assemble_elements_def length_PERIODIC_TABLE)

lemma z_assemble_elements: "map z (assemble_elements data lc) = [1..118]"
proof -
  have "map z (assemble_elements data lc) = map meta_z PERIODIC_TABLE"
    by (simp add: assemble_elements_def z_assemble_one comp_def)
  then show ?thesis
    by (simp only: z_PERIODIC_TABLE)
qed

text \<open>
  The samples of every merged record: the samples supplied for its symbol, normalised
  and in their order, followed by as many fully-empty records as are missing up to
  four. Nothing is cut off, whatever the number of supplied samples.
\<close>

lemma assemble_elements_samples:
  assumes "i < 118"
  shows "samples (assemble_elements data lc ! i) =
     (let given = (case map_of (build_sheet_map data) (symbol (assemble_elements data lc ! i)) of
                     None \<Rightarrow> []
                   | Some entry \<Rightarrow>
                       map (make_sample lc) (case j_samples entry of None \<Rightarrow> [] | Some ss \<Rightarrow> ss))
      in given @ replicate (4 - length given) empty_sample)"
proof -
  have nth: "assemble_elements data lc ! i =
      assemble_one (build_sheet_map data) lc (PERIODIC_TABLE ! i)"
    using assms by (simp add: assemble_elements_def length_PERIODIC_TABLE)
  show ?thesis
    unfolding nth symbol_assemble_one by (rule samples_assemble_one)
qed

text \<open>
  C1. The claim asks for exactly four samples in each of the 118 records, a longer list
  being cut to its first four. The merge returns 118 records, but for the payload whose
  entry for hydrogen holds the five samples \<open>a\<close> to \<open>e\<close> the record of hydrogen
  keeps all five: the loop under the comment \<open>Ensure four samples\<close> only pads a
  short list. The fifth sample then gets its own line in the tooltip of the cell, whose
  quarters show the first four only.
\<close>

theorem assemble_elements_five_samples:
  "length (assemble_elements five_samples []) = 118 \<and>
   length (samples (assemble_elements five_samples [] ! 0)) = 5 \<and>
   length (samples (assemble_elements five_samples [] ! 0)) \<noteq> 4 \<and>
   map value' (samples (assemble_elements five_samples [] ! 0)) =
     [''a'', ''b'', ''c'', ''d'', ''e''] \<and>
   concat (map tooltip_line (List.enumerate 0 (samples (assemble_elements five_samples [] ! 0)))) =
     [''1: a'', ''2: b'', ''3: c'', ''4: d'', ''5: e'']"
  by code_simp

text \<open>
  C6. For the payload with the one entity \<open>H\<close> holding the one sample with value
  \<open>A1\<close>, state \<open>in arrivo\<close> and empty colour, and the legend that maps \<open>in arrivo\<close>
  to \<open>#00ff00\<close>, the merged entity with identifier 1 is the first of the result; its
  first sample has the colour \<open>#00ff00\<close> of the legend and its samples 2 to 4 are
  fully empty.
\<close>

theorem assemble_elements_legend_colour:
  "filter (\<lambda>e. z e = 1) (assemble_elements one_sample [(''in arrivo'', ''#00ff00'')]) =
     [\<lparr>z = 1, symbol = ''H'', name = ''Hydrogen'',
       samples =
         [\<lparr>value' = ''A1'', state = ''in arrivo'', color = ''#00ff00''\<rparr>,
          \<lparr>value' = [], state = [], color = []\<rparr>,
          \<lparr>value' = [], state = [], color = []\<rparr>,
          \<lparr>value' = [], state = [], color = []\<rparr>]\<rparr>] \<and>
   z (assemble_elements one_sample [(''in arrivo'', ''#00ff00'')] ! 0) = 1"
  by code_simp

section \<open>Duplicates and empty symbols in the payload\<close>

lemma map_of_add_entry:
  "map_of (add_entry x m) s =
     (if entry_sym x \<noteq> [] \<and> entry_sym x = s then Some x else map_of m s)"
  by (simp add: add_entry_def Let_def update_conv')

lemma map_of_fold_add_entry:
  "map_of (fold add_entry es m) s =
     (if s = [] \<or> filter (\<lambda>e. entry_sym e = s) es = [] then map_of m s
      else Some (last (filter (\<lambda>e. entry_sym e = s) es)))"
proof (induction es arbitrary: m)
  case Nil
  then show ?case by simp
next
  case (Cons x xs)
  have "map_of (fold add_entry (x # xs) m) s = map_of (fold add_entry xs (add_entry x m)) s"
    by simp
  also have "\<dots> =
     (if s = [] \<or> filter (\<lambda>e. entry_sym e = s) xs = [] then map_of (add_entry x m) s
      else Some (last (filter (\<lambda>e. entry_sym e = s) xs)))"
    by (rule Cons.IH)
  also have "\<dots> =
     (if s = [] \<or> filter (\<lambda>e. entry_sym e = s) (x # xs) = [] then map_of m s
      else Some (last (filter (\<lambda>e. entry_sym e = s) (x # xs))))"
    by (auto simp: map_of_add_entry)
  finally show ?case .
qed

lemma map_of_build_sheet_map:
  "map_of (build_sheet_map (data\<lparr>p_elements := Some es\<rparr>)) s =
     (if s = [] \<or> filter (\<lambda>e. entry_sym e = s) es = [] then None
      else Some (last (filter (\<lambda>e. entry_sym e = s) es)))"
  by (simp add: build_sheet_map_def map_of_fold_add_entry)

lemma assemble_one_cong:
  "map_of sm (meta_symbol m) = map_of sm' (meta_symbol m) \<Longrightarrow>
   assemble_one sm lc m = assemble_one sm' lc m"
  by (simp add: assemble_one_def)

lemma assemble_elements_cong:
  assumes "\<And>s. map_of (build_sheet_map data) s = map_of (build_sheet_map data') s"
  shows "assemble_elements data lc = assemble_elements data' lc"
  unfolding assemble_elements_def
  by (rule map_cong [OF refl]) (rule assemble_one_cong, rule assms)

lemma symbols_nonempty: "list_all (\<lambda>m. meta_symbol m \<noteq> []) PERIODIC_TABLE"
  by code_simp

text \<open>
  C10. Of several entries of the payload with the same trimmed symbol only the last one,
  in payload order, is used: it alone is looked up for the symbol, the record of the
  element gets its samples, and removing an earlier entry with that symbol leaves the
  result unchanged. An entry whose trimmed symbol is empty is skipped: removing it
  leaves the result unchanged.
\<close>

theorem last_entry_wins:
  "(s \<noteq> [] \<longrightarrow>
      map_of (build_sheet_map (data\<lparr>p_elements := Some es\<rparr>)) s =
        (if filter (\<lambda>e. entry_sym e = s) es = [] then None
         else Some (last (filter (\<lambda>e. entry_sym e = s) es)))) \<and>
   (\<forall>i < 118.
      samples (assemble_elements (data\<lparr>p_elements := Some es\<rparr>) lc ! i) =
        (let fs = filter (\<lambda>e. entry_sym e = meta_symbol (PERIODIC_TABLE ! i)) es
         in if fs = [] then replicate 4 empty_sample
            else ensure_four (map (make_sample lc)
                   (case j_samples (last fs) of None \<Rightarrow> [] | Some ss \<Rightarrow> ss)))) \<and>
   (entry_sym e = entry_sym e' \<longrightarrow>
      assemble_elements (data\<lparr>p_elements := Some (xs @ e # ys @ e' # zs)\<rparr>) lc =
      assemble_elements (data\<lparr>p_elements := Some (xs @ ys @ e' # zs)\<rparr>) lc) \<and>
   (entry_sym e = [] \<longrightarrow>
      assemble_elements (data\<lparr>p_elements := Some (xs @ e # ys)\<rparr>) lc =
      assemble_elements (data\<lparr>p_elements := Some (xs @ ys)\<rparr>) lc)"
proof -
  have look: "s \<noteq> [] \<longrightarrow>
      map_of (build_sheet_map (data\<lparr>p_elements := Some es\<rparr>)) s =
        (if filter (\<lambda>e. entry_sym e = s) es = [] then None
         else Some (last (filter (\<lambda>e. entry_sym e = s) es)))"
    by (simp add: map_of_build_sheet_map)
  have each: "\<forall>i < 118.
      samples (assemble_elements (data\<lparr>p_elements := Some es\<rparr>) lc ! i) =
        (let fs = filter (\<lambda>e. entry_sym e = meta_symbol (PERIODIC_TABLE ! i)) es
         in if fs = [] then replicate 4 empty_sample
            else ensure_four (map (make_sample lc)
                   (case j_samples (last fs) of None \<Rightarrow> [] | Some ss \<Rightarrow> ss)))"
  proof (intro allI impI)
    fix i :: nat
    assume i: "i < 118"
    then have "PERIODIC_TABLE ! i \<in> set PERIODIC_TABLE"
      by (simp add: length_PERIODIC_TABLE)
    then have ne: "meta_symbol (PERIODIC_TABLE ! i) \<noteq> []"
      using symbols_nonempty by (simp add: list_all_iff)
    have nth: "assemble_elements (data\<lparr>p_elements := Some es\<rparr>) lc ! i =
        assemble_one (build_sheet_map (data\<lparr>p_elements := Some es\<rparr>)) lc (PERIODIC_TABLE ! i)"
      using i by (simp add: assemble_elements_def length_PERIODIC_TABLE)
    have four: "ensure_four (replicate 4 empty_sample) = replicate 4 empty_sample"
      by (simp add: ensure_four_eq)
    show "samples (assemble_elements (data\<lparr>p_elements := Some es\<rparr>) lc ! i) =
        (let fs = filter (\<lambda>e. entry_sym e = meta_symbol (PERIODIC_TABLE ! i)) es
         in if fs = [] then replicate 4 empty_sample
            else ensure_four (map (make_sample lc)
                   (case j_samples (last fs) of None \<Rightarrow> [] | Some ss \<Rightarrow> ss)))"
      unfolding nth
      using ne by (simp add: assemble_one_def Let_def map_of_build_sheet_map four)
  qed
  have dup: "entry_sym e = entry_sym e' \<longrightarrow>
      assemble_elements (data\<lparr>p_elements := Some (xs @ e # ys @ e' # zs)\<rparr>) lc =
      assemble_elements (data\<lparr>p_elements := Some (xs @ ys @ e' # zs)\<rparr>) lc"
  proof
    assume same: "entry_sym e = entry_sym e'"
    show "assemble_elements (data\<lparr>p_elements := Some (xs @ e # ys @ e' # zs)\<rparr>) lc =
      assemble_elements (data\<lparr>p_elements := Some (xs @ ys @ e' # zs)\<rparr>) lc"
    proof (rule assemble_elements_cong)
      fix s
      show "map_of (build_sheet_map (data\<lparr>p_elements := Some (xs @ e # ys @ e' # zs)\<rparr>)) s =
            map_of (build_sheet_map (data\<lparr>p_elements := Some (xs @ ys @ e' # zs)\<rparr>)) s"
        using same by (simp add: map_of_build_sheet_map)
    qed
  qed
  have skip: "entry_sym e = [] \<longrightarrow>
      assemble_elements (data\<lparr>p_elements := Some (xs @ e # ys)\<rparr>) lc =
      assemble_elements (data\<lparr>p_elements := Some (xs @ ys)\<rparr>) lc"
  proof
    assume none: "entry_sym e = []"
    show "assemble_elements (data\<lparr>p_elements := Some (xs @ e # ys)\<rparr>) lc =
      assemble_elements (data\<lparr>p_elements := Some (xs @ ys)\<rparr>) lc"
    proof (rule assemble_elements_cong)
      fix s
      show "map_of (build_sheet_map (data\<lparr>p_elements := Some (xs @ e # ys)\<rparr>)) s =
            map_of (build_sheet_map (data\<lparr>p_elements := Some (xs @ ys)\<rparr>)) s"
        using none by (auto simp: map_of_build_sheet_map)
    qed
  qed
  show ?thesis
    using look each dup skip by blast
qed

theorem last_entry_wins_witness:
  "''H'' \<noteq> [] \<and>
   entry_sym (entry_of '' H'' [sample_of ''old'' [] []]) = entry_sym (entry_of ''H '' [sample_of ''new'' [] []]) \<and>
   entry_sym (entry_of ''  '' [sample_of ''x'' [] []]) = [] \<and>
   (0::nat) < 118 \<and>
   map_of (build_sheet_map (payload_of
       [entry_of '' H'' [sample_of ''old'' [] []], entry_of ''H '' [sample_of ''new'' [] []]])) ''H'' =
     Some (entry_of ''H '' [sample_of ''new'' [] []]) \<and>
   map value' (samples (assemble_elements (payload_of
       [entry_of '' H'' [sample_of ''old'' [] []], entry_of ''H '' [sample_of ''new'' [] []]]) [] ! 0)) =
     [''new'', [], [], []] \<and>
   assemble_elements (payload_of
       [entry_of '' H'' [sample_of ''old'' [] []], entry_of ''H '' [sample_of ''new'' [] []]]) [] =
   assemble_elements (payload_of [entry_of ''H '' [sample_of ''new'' [] []]]) [] \<and>
   assemble_elements (payload_of
       [entry_of ''  '' [sample_of ''x'' [] []], entry_of ''H '' [sample_of ''new'' [] []]]) [] =
   assemble_elements (payload_of [entry_of ''H '' [sample_of ''new'' [] []]]) []"
proof -
  let ?old = "entry_of '' H'' [sample_of ''old'' [] []]"
  let ?new = "entry_of ''H '' [sample_of ''new'' [] []]"
  let ?blank = "entry_of ''  '' [sample_of ''x'' [] []]"
  have same: "entry_sym ?old = entry_sym ?new"
    by code_simp
  have none: "entry_sym ?blank = []"
    by code_simp
  have upd: "\<And>es. payload_of es = (payload_of [])\<lparr>p_elements := Some es\<rparr>"
    by (simp add: payload_of_def)
  have look: "map_of (build_sheet_map (payload_of [?old, ?new])) ''H'' = Some ?new"
    by code_simp
  have first: "map value' (samples (assemble_elements (payload_of [?old, ?new]) [] ! 0)) =
      [''new'', [], [], []]"
    by code_simp
  have dup: "assemble_elements (payload_of [?old, ?new]) [] = assemble_elements (payload_of [?new]) []"
    using same last_entry_wins [where s = "''H''" and data = "payload_of []" and es = "[?old, ?new]"
        and lc = "[]" and e = ?old and e' = ?new and xs = "[]" and ys = "[]" and zs = "[]"]
    by (simp add: upd [symmetric])
  have skip: "assemble_elements (payload_of [?blank, ?new]) [] = assemble_elements (payload_of [?new]) []"
    using none last_entry_wins [where s = "''H''" and data = "payload_of []" and es = "[?blank, ?new]"
        and lc = "[]" and e = ?blank and e' = ?new and xs = "[]" and ys = "[?new]" and zs = "[]"]
    by (simp add: upd [symmetric])
  show ?thesis
    using same none look first dup skip by simp
qed

section \<open>Placement of the elements\<close>

lemma build_cell_positions_eq:
  "build_cell_positions =
    [
     ((1, 1), Some 1), ((1, 2), None), ((1, 3), None), ((1, 4), None),
     ((1, 5), None), ((1, 6), None), ((1, 7), None), ((1, 8), None),
     ((1, 9), None), ((1, 10), None), ((1, 11), None), ((1, 12), None),
     ((1, 13), None), ((1, 14), None), ((1, 15), None), ((1, 16), None),
     ((1, 17), None), ((1, 18), Some 2), ((2, 1), Some 3), ((2, 2), Some 4),
     ((2, 3), None), ((2, 4), None), ((2, 5), None), ((2, 6), None),
     ((2, 7), None), ((2, 8), None), ((2, 9), None), ((2, 10), None),
     ((2, 11), None), ((2, 12), None), ((2, 13), Some 5), ((2, 14), Some 6),
     ((2, 15), Some 7), ((2, 16), Some 8), ((2, 17), Some 9), ((2, 18), Some 10),
     ((3, 1), Some 11), ((3, 2), Some 12), ((3, 3), None), ((3, 4), None),
     ((3, 5), None), ((3, 6), None), ((3, 7), None), ((3, 8), None),
     ((3, 9), None), ((3, 10), None), ((3, 11), None), ((3, 12), None),
     ((3, 13), Some 13), ((3, 14), Some 14), ((3, 15), Some 15), ((3, 16), Some 16),
     ((3, 17), Some 17), ((3, 18), Some 18), ((4, 1), Some 19), ((4, 2), Some 20),
     ((4, 3), Some 21), ((4, 4), Some 22), ((4, 5), Some 23), ((4, 6), Some 24),
     ((4, 7), Some 25), ((4, 8), Some 26), ((4, 9), Some 27), ((4, 10), Some 28),
     ((4, 11), Some 29), ((4, 12), Some 30), ((4, 13), Some 31), ((4, 14), Some 32),
     ((4, 15), Some 33), ((4, 16), Some 34), ((4, 17), Some 35), ((4, 18), Some 36),
     ((5, 1), Some 37), ((5, 2), Some 38), ((5, 3), Some 39), ((5, 4), Some 40),
     ((5, 5), Some 41), ((5, 6), Some 42), ((5, 7), Some 43), ((5, 8), Some 44),
     ((5, 9), Some 45), ((5, 10), Some 46), ((5, 11), Some 47), ((5, 12), Some 48),
     ((5, 13), Some 49), ((5, 14), Some 50), ((5, 15), Some 51), ((5, 16), Some 52),
     ((5, 17), Some 53), ((5, 18), Some 54), ((6, 1), Some 55), ((6, 2), Some 56),
     ((6, 3), None), ((6, 4), Some 72), ((6, 5), Some 73), ((6, 6), Some 74),
     ((6, 7), Some 75), ((6, 8), Some 76), ((6, 9), Some 77), ((6, 10), Some 78),
     ((6, 11), Some 79), ((6, 12), Some 80), ((6, 13), Some 81), ((6, 14), Some 82),
     ((6, 15), Some 83), ((6, 16), Some 84), ((6, 17), Some 85), ((6, 18), Some 86),
     ((7, 1), Some 87), ((7, 2), Some 88), ((7, 3), None), ((7, 4), Some 104),
     ((7, 5), Some 105), ((7, 6), Some 106), ((7, 7), Some 107), ((7, 8), Some 108),
     ((7, 9), Some 109), ((7, 10), Some 110), ((7, 11), Some 111), ((7, 12), Some 112),
     ((7, 13), Some 113), ((7, 14), Some 114), ((7, 15), Some 115), ((7, 16), Some 116),
     ((7, 17), Some 117), ((7, 18), Some 118)]"
  by code_simp

lemma placed_ids_eq:
  "placed_ids = [1..56] @ [72..88] @ [104..118] @ [57..71] @ [89..103]"
  unfolding placed_ids_def main_grid_ids_def build_cell_positions_eq by code_simp

lemma distinct_placed_ids: "distinct placed_ids"
  unfolding placed_ids_eq by (simp only: distinct_append distinct_upto set_upto) auto

lemma set_placed_ids: "set placed_ids = {1..118}"
  unfolding placed_ids_eq by (simp only: set_append set_upto) auto

lemma count_list_distinct:
  "distinct xs \<Longrightarrow> count_list xs a = (if a \<in> set xs then 1 else 0)"
  by (induction xs) auto

text \<open>
  C3. Every one of the 118 identifiers of the table occurs exactly once among the
  values of the main grid (\<open>build_cell_positions\<close>) followed by the two rows of
  \<open>assign_f_block\<close>; these 118 placements hold nothing else.
\<close>

theorem every_id_placed_once:
  "(\<forall>m \<in> set PERIODIC_TABLE. count_list placed_ids (meta_z m) = 1) \<and>
   map meta_z PERIODIC_TABLE = [1..118] \<and>
   length placed_ids = 118 \<and>
   count_list placed_ids n = (if 1 \<le> n \<and> n \<le> 118 then 1 else 0)"
proof -
  have cnt: "\<And>k. count_list placed_ids k = (if 1 \<le> k \<and> k \<le> 118 then 1 else 0)"
    using count_list_distinct [OF distinct_placed_ids] by (simp add: set_placed_ids)
  have "\<forall>m \<in> set PERIODIC_TABLE. count_list placed_ids (meta_z m) = 1"
  proof
    fix m assume "m \<in> set PERIODIC_TABLE"
    then have "meta_z m \<in> set (map meta_z PERIODIC_TABLE)"
      by simp
    then have "1 \<le> meta_z m \<and> meta_z m \<le> 118"
      by (simp only: z_PERIODIC_TABLE set_upto) simp
    then show "count_list placed_ids (meta_z m) = 1"
      by (simp add: cnt)
  qed
  moreover have "length placed_ids = 118"
    unfolding placed_ids_eq by simp
  ultimately show ?thesis
    using z_PERIODIC_TABLE cnt by blast
qed

theorem every_id_placed_once_witness:
  "element 57 ''La'' ''Lanthanum'' 3 6 \<in> set PERIODIC_TABLE \<and>
   meta_z (element 57 ''La'' ''Lanthanum'' 3 6) = 57 \<and>
   count_list placed_ids 57 = 1 \<and>
   count_list placed_ids 1 = 1 \<and>
   count_list placed_ids 119 = 0"
proof -
  have mem: "element 57 ''La'' ''Lanthanum'' 3 6 \<in> set PERIODIC_TABLE"
    by (simp add: PERIODIC_TABLE_def)
  have zz: "meta_z (element 57 ''La'' ''Lanthanum'' 3 6) = 57"
    by (simp add: element_def)
  show ?thesis
    using mem zz every_id_placed_once [of 57] every_id_placed_once [of 1]
      every_id_placed_once [of 119]
    by simp
qed

lemma main_grid_check:
  "list_all (\<lambda>m. if (57 \<le> meta_z m \<and> meta_z m \<le> 71) \<or> (89 \<le> meta_z m \<and> meta_z m \<le> 103)
                  then Some (meta_z m) \<notin> set (map snd build_cell_positions)
                  else map_of build_cell_positions (meta_period m, meta_group m) = Some (Some (meta_z m)))
     PERIODIC_TABLE"
  unfolding build_cell_positions_eq by code_simp

lemma anchors_check:
  "map_of build_cell_positions (6, 3) = Some None \<and>
   map_of build_cell_positions (7, 3) = Some None \<and>
   map fst build_cell_positions = concat (map (\<lambda>p. map (\<lambda>g. (p, g)) [1..18]) [1..7])"
  unfolding build_cell_positions_eq by code_simp

text \<open>
  C5. The main-grid map has the 7 times 18 coordinates as its keys. It holds, at its
  period and group, every element of the table whose identifier lies outside 57 to 71
  and 89 to 103; it holds none of the elements inside these two ranges; and at the two
  anchors (6, 3) and (7, 3) its value is \<open>None\<close>.
\<close>

theorem main_grid_entries:
  "(\<forall>m \<in> set PERIODIC_TABLE.
      \<not> ((57 \<le> meta_z m \<and> meta_z m \<le> 71) \<or> (89 \<le> meta_z m \<and> meta_z m \<le> 103)) \<longrightarrow>
      map_of build_cell_positions (meta_period m, meta_group m) = Some (Some (meta_z m))) \<and>
   (\<forall>m \<in> set PERIODIC_TABLE.
      (57 \<le> meta_z m \<and> meta_z m \<le> 71) \<or> (89 \<le> meta_z m \<and> meta_z m \<le> 103) \<longrightarrow>
      Some (meta_z m) \<notin> set (map snd build_cell_positions)) \<and>
   map_of build_cell_positions (6, 3) = Some None \<and>
   map_of build_cell_positions (7, 3) = Some None \<and>
   pos_get build_cell_positions (6, 3) = None \<and>
   pos_get build_cell_positions (7, 3) = None \<and>
   map fst build_cell_positions = concat (map (\<lambda>p. map (\<lambda>g. (p, g)) [1..18]) [1..7])"
proof -
  have "\<forall>m \<in> set PERIODIC_TABLE.
      (if (57 \<le> meta_z m \<and> meta_z m \<le> 71) \<or> (89 \<le> meta_z m \<and> meta_z m \<le> 103)
       then Some (meta_z m) \<notin> set (map snd build_cell_positions)
       else map_of build_cell_positions (meta_period m, meta_group m) = Some (Some (meta_z m)))"
    using main_grid_check by (simp only: list_all_iff)
  then have each: "\<And>m. m \<in> set PERIODIC_TABLE \<Longrightarrow>
      (if (57 \<le> meta_z m \<and> meta_z m \<le> 71) \<or> (89 \<le> meta_z m \<and> meta_z m \<le> 103)
       then Some (meta_z m) \<notin> set (map snd build_cell_positions)
       else map_of build_cell_positions (meta_period m, meta_group m) = Some (Some (meta_z m)))"
    by (rule bspec)
  have main: "\<forall>m \<in> set PERIODIC_TABLE.
      \<not> ((57 \<le> meta_z m \<and> meta_z m \<le> 71) \<or> (89 \<le> meta_z m \<and> meta_z m \<le> 103)) \<longrightarrow>
      map_of build_cell_positions (meta_period m, meta_group m) = Some (Some (meta_z m))"
  proof (intro ballI impI)
    fix m
    assume mem: "m \<in> set PERIODIC_TABLE"
      and c: "\<not> ((57 \<le> meta_z m \<and> meta_z m \<le> 71) \<or> (89 \<le> meta_z m \<and> meta_z m \<le> 103))"
    from each [OF mem] c
    show "map_of build_cell_positions (meta_period m, meta_group m) = Some (Some (meta_z m))"
      by simp
  qed
  have displaced: "\<forall>m \<in> set PERIODIC_TABLE.
      (57 \<le> meta_z m \<and> meta_z m \<le> 71) \<or> (89 \<le> meta_z m \<and> meta_z m \<le> 103) \<longrightarrow>
      Some (meta_z m) \<notin> set (map snd build_cell_positions)"
  proof (intro ballI impI)
    fix m
    assume mem: "m \<in> set PERIODIC_TABLE"
      and c: "(57 \<le> meta_z m \<and> meta_z m \<le> 71) \<or> (89 \<le> meta_z m \<and> meta_z m \<le> 103)"
    from each [OF mem] c
    show "Some (meta_z m) \<notin> set (map snd build_cell_positions)"
      by (simp split: if_splits)
  qed
  note both = conjI [OF main displaced]
  have "pos_get build_cell_positions (6, 3) = None \<and> pos_get build_cell_positions (7, 3) = None"
    using anchors_check by (simp add: pos_get_def)
  then show ?thesis
    using both anchors_check by blast
qed

theorem main_grid_entries_witness:
  "element 72 ''Hf'' ''Hafnium'' 4 6 \<in> set PERIODIC_TABLE \<and>
   \<not> ((57 \<le> meta_z (element 72 ''Hf'' ''Hafnium'' 4 6) \<and> meta_z (element 72 ''Hf'' ''Hafnium'' 4 6) \<le> 71) \<or>
       (89 \<le> meta_z (element 72 ''Hf'' ''Hafnium'' 4 6) \<and> meta_z (element 72 ''Hf'' ''Hafnium'' 4 6) \<le> 103)) \<and>
   map_of build_cell_positions (6, 4) = Some (Some 72) \<and>
   element 57 ''La'' ''Lanthanum'' 3 6 \<in> set PERIODIC_TABLE \<and>
   57 \<le> meta_z (element 57 ''La'' ''Lanthanum'' 3 6) \<and>
   meta_z (element 57 ''La'' ''Lanthanum'' 3 6) \<le> 71 \<and>
   Some 57 \<notin> set (map snd build_cell_positions)"
proof -
  have m1: "element 72 ''Hf'' ''Hafnium'' 4 6 \<in> set PERIODIC_TABLE"
    by (simp add: PERIODIC_TABLE_def)
  have m2: "element 57 ''La'' ''Lanthanum'' 3 6 \<in> set PERIODIC_TABLE"
    by (simp add: PERIODIC_TABLE_def)
  have a: "map_of build_cell_positions (6, 4) = Some (Some 72)"
    using m1 main_grid_entries by (fastforce simp: element_def)
  have b: "Some 57 \<notin> set (map snd build_cell_positions)"
    using m2 main_grid_entries by (fastforce simp: element_def)
  show ?thesis
    using m1 m2 a b by (simp add: element_def)
qed

section \<open>The cells of the grid\<close>

lemma fold_elem_upd:
  "fold (\<lambda>e m. m(z e \<mapsto> e)) es m = m ++ map_of (rev (map (\<lambda>e. (z e, e)) es))"
proof (induction es arbitrary: m)
  case Nil
  then show ?case by simp
next
  case (Cons x xs)
  have "fold (\<lambda>e m. m(z e \<mapsto> e)) (x # xs) m =
        fold (\<lambda>e m. m(z e \<mapsto> e)) xs (m(z x \<mapsto> x))"
    by simp
  also have "\<dots> = m(z x \<mapsto> x) ++ map_of (rev (map (\<lambda>e. (z e, e)) xs))"
    by (rule Cons.IH)
  also have "\<dots> = m ++ map_of (rev (map (\<lambda>e. (z e, e)) (x # xs)))"
    by (rule ext) (simp add: map_add_def split: option.splits)
  finally show ?case .
qed

lemma elem_by_z_map_of:
  "elem_by_z es = map_of (rev (map (\<lambda>e. (z e, e)) es))"
  by (simp add: elem_by_z_def fold_elem_upd)

lemma elem_by_z_member: "elem_by_z es n = Some e \<Longrightarrow> e \<in> set es"
proof -
  assume "elem_by_z es n = Some e"
  then have "(n, e) \<in> set (rev (map (\<lambda>e. (z e, e)) es))"
    unfolding elem_by_z_map_of by (rule map_of_SomeD)
  then show ?thesis by auto
qed

lemma elem_by_z_nth:
  assumes "distinct (map z es)" and "i < length es"
  shows "elem_by_z es (z (es ! i)) = Some (es ! i)"
proof -
  have "map fst (rev (map (\<lambda>e. (z e, e)) es)) = rev (map z es)"
    by (simp add: rev_map comp_def)
  then have d: "distinct (map fst (rev (map (\<lambda>e. (z e, e)) es)))"
    using assms(1) by simp
  have "(z (es ! i), es ! i) \<in> set (rev (map (\<lambda>e. (z e, e)) es))"
    using assms(2) by auto
  then show ?thesis
    unfolding elem_by_z_map_of using d by simp
qed

lemma elem_by_z_numbered:
  assumes zs: "map z es = [1..118]" and n: "1 \<le> n" "n \<le> 118"
  shows "elem_by_z es n = Some (es ! nat (n - 1))"
proof -
  have len: "length es = 118"
    using arg_cong [OF zs, of length] by simp
  have i: "nat (n - 1) < length es"
    using n len by simp
  have "z (es ! nat (n - 1)) = map z es ! nat (n - 1)"
    using i by simp
  also have "\<dots> = n"
    unfolding zs using n by simp
  finally have zn: "z (es ! nat (n - 1)) = n" .
  have "distinct (map z es)"
    unfolding zs by simp
  then have "elem_by_z es (z (es ! nat (n - 1))) = Some (es ! nat (n - 1))"
    using i by (rule elem_by_z_nth)
  then show ?thesis
    by (simp only: zn)
qed

lemma collect_map:
  "(\<And>x. x \<in> set xs \<Longrightarrow> f x = Inr (g x)) \<Longrightarrow> collect (map f xs) = Inr (map g xs)"
  by (induction xs) simp_all

lemma element_cell_four:
  "4 \<le> length (samples e) \<Longrightarrow> \<exists>s. element_cell e = Inr s"
  by (simp add: element_cell_def Let_def)

lemma four_samples:
  assumes "e \<in> set (assemble_elements data lc)"
  shows "4 \<le> length (samples e)"
proof -
  obtain m where "e = assemble_one (build_sheet_map data) lc m"
    using assms by (auto simp: assemble_elements_def)
  then show ?thesis
    by (simp add: samples_assemble_one Let_def)
qed

lemma render_cell_Inr:
  assumes "\<And>e. e \<in> set es \<Longrightarrow> 4 \<le> length (samples e)"
  shows "\<exists>s. render_cell (elem_by_z es) pos l a row col = Inr s"
proof (cases "row = 8")
  case True
  then show ?thesis by (simp add: render_cell_def)
next
  case False
  show ?thesis
  proof (cases "cell_z pos l a row col")
    case None
    then show ?thesis using False by (simp add: render_cell_def)
  next
    case (Some n)
    show ?thesis
    proof (cases "elem_by_z es n")
      case None
      then show ?thesis using False Some by (simp add: render_cell_def)
    next
      case (Some e)
      then have "e \<in> set es"
        by (rule elem_by_z_member)
      then have "4 \<le> length (samples e)"
        by (rule assms)
      then have "\<exists>s. element_cell e = Inr s"
        by (rule element_cell_four)
      then show ?thesis
        using False \<open>cell_z pos l a row col = Some n\<close> Some by (simp add: render_cell_def)
    qed
  qed
qed

lemma cells_html_Inr:
  assumes "\<And>e. e \<in> set es \<Longrightarrow> 4 \<le> length (samples e)"
  shows "cells_html es =
     Inr (map (\<lambda>(row, col). projr (render_cell (elem_by_z es) build_cell_positions
            (fst assign_f_block) (snd assign_f_block) row col)) grid)"
proof -
  have "collect (map (\<lambda>(row, col). render_cell (elem_by_z es) build_cell_positions
            (fst assign_f_block) (snd assign_f_block) row col) grid) =
        Inr (map (\<lambda>(row, col). projr (render_cell (elem_by_z es) build_cell_positions
            (fst assign_f_block) (snd assign_f_block) row col)) grid)"
  proof (rule collect_map)
    fix x :: "int \<times> int"
    obtain row col where x: "x = (row, col)"
      by (cases x)
    obtain s where "render_cell (elem_by_z es) build_cell_positions
            (fst assign_f_block) (snd assign_f_block) row col = Inr s"
      using render_cell_Inr [OF assms] by blast
    then show "(case x of (row, col) \<Rightarrow> render_cell (elem_by_z es) build_cell_positions
            (fst assign_f_block) (snd assign_f_block) row col) =
          Inr (case x of (row, col) \<Rightarrow> projr (render_cell (elem_by_z es) build_cell_positions
            (fst assign_f_block) (snd assign_f_block) row col))"
      by (simp add: x)
  qed
  then show ?thesis
    by (simp add: cells_html_def Let_def)
qed

lemma assign_f_block_eq: "assign_f_block = ([57..71], [89..103])"
  by code_simp

lemma length_grid: "length grid = 180"
  by code_simp

lemma cell_z_row_9:
  "cell_z pos l a 9 col =
     (if 4 \<le> col \<and> col \<le> 18 \<and> col - 4 < int (length l) then Some (l ! nat (col - 4)) else None)"
  by (simp add: cell_z_def Let_def)

lemma cell_z_row_10:
  "cell_z pos l a 10 col =
     (if 4 \<le> col \<and> col \<le> 18 \<and> col - 4 < int (length a) then Some (a ! nat (col - 4)) else None)"
  by (simp add: cell_z_def Let_def)

lemma grid_f_rows:
  "list_all (\<lambda>k. grid ! nat (8 * 18 + (4 + k) - 1) = (9, 4 + k) \<and>
                  grid ! nat (9 * 18 + (4 + k) - 1) = (10, 4 + k)) [0..14]"
  by code_simp

lemma nth_upto_int:
  assumes "0 \<le> k" and "i + k \<le> j"
  shows "[i..j] ! nat k = i + k"
proof -
  have "i + int (nat k) \<le> j"
    using assms by simp
  then have "[i..j] ! nat k = i + int (nat k)"
    by (rule nth_upto)
  then show ?thesis
    using assms(1) by simp
qed

lemma nth_lanths: "0 \<le> k \<Longrightarrow> k < 15 \<Longrightarrow> fst assign_f_block ! nat k = 57 + k"
  unfolding assign_f_block_eq fst_conv by (rule nth_upto_int) simp_all

lemma nth_actins: "0 \<le> k \<Longrightarrow> k < 15 \<Longrightarrow> snd assign_f_block ! nat k = 89 + k"
  unfolding assign_f_block_eq snd_conv by (rule nth_upto_int) simp_all

lemma length_f_block: "length (fst assign_f_block) = 15 \<and> length (snd assign_f_block) = 15"
  by code_simp

text \<open>
  C4. In the loop of \<open>render_html\<close> the slot \<open>k\<close> (from 0 to 14) of an f-block row is
  taken at column \<open>4 + k\<close>: in row 9 that cell holds the identifier \<open>57 + k\<close>, in row
  10 the identifier \<open>89 + k\<close>, so 57 is at column 4 and 71 at column 18 with no gap,
  while columns 1 to 3 of both rows hold nothing. For every payload the cell emitted at
  that place of the grid (18 cells a row, in row order) is the cell of the merged
  element with that identifier.
\<close>

theorem f_block_columns:
  "0 \<le> k \<and> k < 15 \<longrightarrow>
     fst assign_f_block ! nat k = 57 + k \<and>
     snd assign_f_block ! nat k = 89 + k \<and>
     cell_z build_cell_positions (fst assign_f_block) (snd assign_f_block) 9 (4 + k) = Some (57 + k) \<and>
     cell_z build_cell_positions (fst assign_f_block) (snd assign_f_block) 10 (4 + k) = Some (89 + k) \<and>
     grid ! nat (8 * 18 + (4 + k) - 1) = (9, 4 + k) \<and>
     grid ! nat (9 * 18 + (4 + k) - 1) = (10, 4 + k) \<and>
     (\<exists>cells. cells_html (assemble_elements data lc) = Inr cells \<and>
        length cells = 180 \<and>
        z (assemble_elements data lc ! nat (57 + k - 1)) = 57 + k \<and>
        z (assemble_elements data lc ! nat (89 + k - 1)) = 89 + k \<and>
        Inr (cells ! nat (8 * 18 + (4 + k) - 1)) =
          element_cell (assemble_elements data lc ! nat (57 + k - 1)) \<and>
        Inr (cells ! nat (9 * 18 + (4 + k) - 1)) =
          element_cell (assemble_elements data lc ! nat (89 + k - 1))) \<and>
     cell_z build_cell_positions (fst assign_f_block) (snd assign_f_block) 9 1 = None \<and>
     cell_z build_cell_positions (fst assign_f_block) (snd assign_f_block) 9 2 = None \<and>
     cell_z build_cell_positions (fst assign_f_block) (snd assign_f_block) 9 3 = None \<and>
     cell_z build_cell_positions (fst assign_f_block) (snd assign_f_block) 10 1 = None \<and>
     cell_z build_cell_positions (fst assign_f_block) (snd assign_f_block) 10 2 = None \<and>
     cell_z build_cell_positions (fst assign_f_block) (snd assign_f_block) 10 3 = None \<and>
     cell_z build_cell_positions (fst assign_f_block) (snd assign_f_block) 9 4 = Some 57 \<and>
     cell_z build_cell_positions (fst assign_f_block) (snd assign_f_block) 9 18 = Some 71"
proof
  let ?es = "assemble_elements data lc"
  let ?pos = "build_cell_positions"
  let ?l = "fst assign_f_block"
  let ?a = "snd assign_f_block"
  let ?f = "\<lambda>(row, col). projr (render_cell (elem_by_z ?es) ?pos ?l ?a row col)"
  assume k: "0 \<le> k \<and> k < 15"
  have l: "?l ! nat k = 57 + k"
    using k by (simp add: nth_lanths)
  have a: "?a ! nat k = 89 + k"
    using k by (simp add: nth_actins)
  have z9: "cell_z ?pos ?l ?a 9 (4 + k) = Some (57 + k)"
    using k l by (simp add: cell_z_row_9 length_f_block)
  have z10: "cell_z ?pos ?l ?a 10 (4 + k) = Some (89 + k)"
    using k a by (simp add: cell_z_row_10 length_f_block)
  have "k \<in> set [0..14]"
    using k by simp
  then have g: "grid ! nat (8 * 18 + (4 + k) - 1) = (9, 4 + k) \<and>
                grid ! nat (9 * 18 + (4 + k) - 1) = (10, 4 + k)"
    using grid_f_rows unfolding list_all_iff by blast
  have zs: "map z ?es = [1..118]"
    by (rule z_assemble_elements)
  have four: "\<And>e. e \<in> set ?es \<Longrightarrow> 4 \<le> length (samples e)"
    by (rule four_samples)
  have cells: "cells_html ?es = Inr (map ?f grid)"
    using four by (rule cells_html_Inr)
  have len: "length (map ?f grid) = 180"
    by (simp add: length_grid)
  have by57: "elem_by_z ?es (57 + k) = Some (?es ! nat (57 + k - 1))"
    using zs k by (intro elem_by_z_numbered) simp_all
  have by89: "elem_by_z ?es (89 + k) = Some (?es ! nat (89 + k - 1))"
    using zs k by (intro elem_by_z_numbered) simp_all
  have i57: "nat (57 + k - 1) < length ?es"
    unfolding length_assemble_elements using k by arith
  have i89: "nat (89 + k - 1) < length ?es"
    unfolding length_assemble_elements using k by arith
  have "z (?es ! nat (57 + k - 1)) = map z ?es ! nat (57 + k - 1)"
    using i57 by simp
  also have "\<dots> = 1 + (57 + k - 1)"
    unfolding zs using k by (intro nth_upto_int) simp_all
  finally have z57: "z (?es ! nat (57 + k - 1)) = 57 + k" by simp
  have "z (?es ! nat (89 + k - 1)) = map z ?es ! nat (89 + k - 1)"
    using i89 by simp
  also have "\<dots> = 1 + (89 + k - 1)"
    unfolding zs using k by (intro nth_upto_int) simp_all
  finally have z89: "z (?es ! nat (89 + k - 1)) = 89 + k" by simp
  have r9: "render_cell (elem_by_z ?es) ?pos ?l ?a 9 (4 + k) =
      element_cell (?es ! nat (57 + k - 1))"
    by (simp add: render_cell_def z9 by57)
  have r10: "render_cell (elem_by_z ?es) ?pos ?l ?a 10 (4 + k) =
      element_cell (?es ! nat (89 + k - 1))"
    by (simp add: render_cell_def z10 by89)
  have e57: "\<exists>s. element_cell (?es ! nat (57 + k - 1)) = Inr s"
    using i57 by (intro element_cell_four four) simp
  have e89: "\<exists>s. element_cell (?es ! nat (89 + k - 1)) = Inr s"
    using i89 by (intro element_cell_four four) simp
  have n9: "nat (8 * 18 + (4 + k) - 1) < length grid"
    unfolding length_grid using k by arith
  have n10: "nat (9 * 18 + (4 + k) - 1) < length grid"
    unfolding length_grid using k by arith
  have "map ?f grid ! nat (8 * 18 + (4 + k) - 1) = ?f (grid ! nat (8 * 18 + (4 + k) - 1))"
    using n9 by (rule nth_map)
  also have "\<dots> = ?f (9, 4 + k)"
    by (simp only: conjunct1 [OF g])
  also have "\<dots> = projr (element_cell (?es ! nat (57 + k - 1)))"
    by (simp only: prod.case r9)
  finally have p9: "map ?f grid ! nat (8 * 18 + (4 + k) - 1) =
      projr (element_cell (?es ! nat (57 + k - 1)))" .
  have c9: "Inr (map ?f grid ! nat (8 * 18 + (4 + k) - 1)) = element_cell (?es ! nat (57 + k - 1))"
    unfolding p9 using e57 by auto
  have "map ?f grid ! nat (9 * 18 + (4 + k) - 1) = ?f (grid ! nat (9 * 18 + (4 + k) - 1))"
    using n10 by (rule nth_map)
  also have "\<dots> = ?f (10, 4 + k)"
    by (simp only: conjunct2 [OF g])
  also have "\<dots> = projr (element_cell (?es ! nat (89 + k - 1)))"
    by (simp only: prod.case r10)
  finally have p10: "map ?f grid ! nat (9 * 18 + (4 + k) - 1) =
      projr (element_cell (?es ! nat (89 + k - 1)))" .
  have c10: "Inr (map ?f grid ! nat (9 * 18 + (4 + k) - 1)) = element_cell (?es ! nat (89 + k - 1))"
    unfolding p10 using e89 by auto
  have ex: "\<exists>cells. cells_html ?es = Inr cells \<and> length cells = 180 \<and>
        z (?es ! nat (57 + k - 1)) = 57 + k \<and>
        z (?es ! nat (89 + k - 1)) = 89 + k \<and>
        Inr (cells ! nat (8 * 18 + (4 + k) - 1)) = element_cell (?es ! nat (57 + k - 1)) \<and>
        Inr (cells ! nat (9 * 18 + (4 + k) - 1)) = element_cell (?es ! nat (89 + k - 1))"
    using cells len z57 z89 c9 c10 by blast
  have left: "cell_z ?pos ?l ?a 9 1 = None \<and> cell_z ?pos ?l ?a 9 2 = None \<and>
      cell_z ?pos ?l ?a 9 3 = None \<and> cell_z ?pos ?l ?a 10 1 = None \<and>
      cell_z ?pos ?l ?a 10 2 = None \<and> cell_z ?pos ?l ?a 10 3 = None"
    by (simp add: cell_z_row_9 cell_z_row_10)
  have ends: "cell_z ?pos ?l ?a 9 4 = Some 57 \<and> cell_z ?pos ?l ?a 9 18 = Some 71"
    using nth_lanths [of 0] nth_lanths [of 14] by (simp add: cell_z_row_9 length_f_block)
  show "?l ! nat k = 57 + k \<and> ?a ! nat k = 89 + k \<and>
     cell_z ?pos ?l ?a 9 (4 + k) = Some (57 + k) \<and>
     cell_z ?pos ?l ?a 10 (4 + k) = Some (89 + k) \<and>
     grid ! nat (8 * 18 + (4 + k) - 1) = (9, 4 + k) \<and>
     grid ! nat (9 * 18 + (4 + k) - 1) = (10, 4 + k) \<and>
     (\<exists>cells. cells_html ?es = Inr cells \<and> length cells = 180 \<and>
        z (?es ! nat (57 + k - 1)) = 57 + k \<and>
        z (?es ! nat (89 + k - 1)) = 89 + k \<and>
        Inr (cells ! nat (8 * 18 + (4 + k) - 1)) = element_cell (?es ! nat (57 + k - 1)) \<and>
        Inr (cells ! nat (9 * 18 + (4 + k) - 1)) = element_cell (?es ! nat (89 + k - 1))) \<and>
     cell_z ?pos ?l ?a 9 1 = None \<and> cell_z ?pos ?l ?a 9 2 = None \<and>
     cell_z ?pos ?l ?a 9 3 = None \<and> cell_z ?pos ?l ?a 10 1 = None \<and>
     cell_z ?pos ?l ?a 10 2 = None \<and> cell_z ?pos ?l ?a 10 3 = None \<and>
     cell_z ?pos ?l ?a 9 4 = Some 57 \<and> cell_z ?pos ?l ?a 9 18 = Some 71"
    using l a z9 z10 g ex left ends by blast
qed

theorem f_block_columns_witness:
  "(0::int) \<le> 14 \<and> (14::int) < 15 \<and>
   cell_z build_cell_positions (fst assign_f_block) (snd assign_f_block) 9 (4 + 14) = Some (57 + 14) \<and>
   cell_z build_cell_positions (fst assign_f_block) (snd assign_f_block) 10 (4 + 14) = Some (89 + 14) \<and>
   grid ! nat (8 * 18 + (4 + 14) - 1) = (9, 4 + 14) \<and>
   z (assemble_elements one_sample [] ! nat (57 + 14 - 1)) = 57 + 14"
proof -
  have "(0::int) \<le> 14 \<and> (14::int) < 15"
    by simp
  then show ?thesis
    using f_block_columns [of 14 one_sample "[]"] by blast
qed

section \<open>Rendering without data\<close>

lemma blank_quarter_0: "render_sample_quarter empty_sample 0 = neutral_quarter 0"
  by code_simp

lemma blank_quarter_1: "render_sample_quarter empty_sample 1 = neutral_quarter 1"
  by code_simp

lemma blank_quarter_2: "render_sample_quarter empty_sample 2 = neutral_quarter 2"
  by code_simp

lemma blank_quarter_3: "render_sample_quarter empty_sample 3 = neutral_quarter 3"
  by code_simp

lemma upto_0_3: "[0..3] = [0, 1, 2, 3::int]"
  by code_simp

lemma blank_tooltip_lines:
  "concat (map tooltip_line (List.enumerate 0 (samples (blank_element m)))) = []"
  by (simp add: blank_element_def tooltip_line_def empty_sample_def)

lemma blank_quarters:
  "concat (map (\<lambda>i. render_sample_quarter (samples (blank_element m) ! nat i) i) [0..3]) =
     neutral_quarter 0 @ neutral_quarter 1 @ neutral_quarter 2 @ neutral_quarter 3"
  unfolding upto_0_3
  by (simp add: blank_element_def blank_quarter_0 blank_quarter_1 blank_quarter_2
      blank_quarter_3)

lemma blank_fields:
  "z (blank_element m) = meta_z m" "symbol (blank_element m) = meta_symbol m"
  "name (blank_element m) = meta_name m" "length (samples (blank_element m)) = 4"
  by (simp_all add: blank_element_def)

lemma element_cell_blank: "element_cell (blank_element m) = Inr (blank_cell m)"
  unfolding element_cell_def Let_def blank_tooltip_lines blank_quarters blank_fields
  by (simp add: blank_cell_def)

lemma assemble_one_blank: "assemble_one [] lc m = blank_element m"
  by (simp add: assemble_one_def blank_element_def ensure_four_eq numeral_eq_Suc)

lemma grid_ids_in_table:
  "list_all (\<lambda>(row, col).
      case cell_z build_cell_positions (fst assign_f_block) (snd assign_f_block) row col of
        None \<Rightarrow> True
      | Some n \<Rightarrow> 1 \<le> n \<and> n \<le> 118) grid"
  unfolding build_cell_positions_eq by code_simp

lemma grid_cell_z:
  "map (\<lambda>(row, col). cell_z build_cell_positions (fst assign_f_block) (snd assign_f_block) row col) grid =
    [
     Some 1, None, None, None, None, None, None, None, None,
     None, None, None, None, None, None, None, None, Some 2,
     Some 3, Some 4, None, None, None, None, None, None, None,
     None, None, None, Some 5, Some 6, Some 7, Some 8, Some 9, Some 10,
     Some 11, Some 12, None, None, None, None, None, None, None,
     None, None, None, Some 13, Some 14, Some 15, Some 16, Some 17, Some 18,
     Some 19, Some 20, Some 21, Some 22, Some 23, Some 24, Some 25, Some 26, Some 27,
     Some 28, Some 29, Some 30, Some 31, Some 32, Some 33, Some 34, Some 35, Some 36,
     Some 37, Some 38, Some 39, Some 40, Some 41, Some 42, Some 43, Some 44, Some 45,
     Some 46, Some 47, Some 48, Some 49, Some 50, Some 51, Some 52, Some 53, Some 54,
     Some 55, Some 56, None, Some 72, Some 73, Some 74, Some 75, Some 76, Some 77,
     Some 78, Some 79, Some 80, Some 81, Some 82, Some 83, Some 84, Some 85, Some 86,
     Some 87, Some 88, None, Some 104, Some 105, Some 106, Some 107, Some 108, Some 109,
     Some 110, Some 111, Some 112, Some 113, Some 114, Some 115, Some 116, Some 117, Some 118,
     None, None, None, None, None, None, None, None, None,
     None, None, None, None, None, None, None, None, None,
     None, None, None, Some 57, Some 58, Some 59, Some 60, Some 61, Some 62,
     Some 63, Some 64, Some 65, Some 66, Some 67, Some 68, Some 69, Some 70, Some 71,
     None, None, None, Some 89, Some 90, Some 91, Some 92, Some 93, Some 94,
     Some 95, Some 96, Some 97, Some 98, Some 99, Some 100, Some 101, Some 102, Some 103]"
  unfolding build_cell_positions_eq by code_simp

lemma grid_element_count:
  "length (filter (\<lambda>n. n \<noteq> None)
     (map (\<lambda>(row, col). cell_z build_cell_positions (fst assign_f_block) (snd assign_f_block) row col)
        grid)) = 118"
  unfolding grid_cell_z by simp

lemma z_blank: "map z (map blank_element PERIODIC_TABLE) = [1..118]"
proof -
  have "map z (map blank_element PERIODIC_TABLE) = map meta_z PERIODIC_TABLE"
    by (simp add: blank_element_def comp_def)
  then show ?thesis
    by (simp only: z_PERIODIC_TABLE)
qed

lemma cells_html_blank:
  "cells_html (map blank_element PERIODIC_TABLE) = Inr (map blank_grid_cell grid)"
proof -
  let ?es = "map blank_element PERIODIC_TABLE"
  let ?pos = "build_cell_positions"
  let ?l = "fst assign_f_block"
  let ?a = "snd assign_f_block"
  have "collect (map (\<lambda>(row, col). render_cell (elem_by_z ?es) ?pos ?l ?a row col) grid) =
        Inr (map blank_grid_cell grid)"
  proof (rule collect_map)
    fix x :: "int \<times> int"
    assume mem: "x \<in> set grid"
    obtain row col where x: "x = (row, col)"
      by (cases x)
    show "(case x of (row, col) \<Rightarrow> render_cell (elem_by_z ?es) ?pos ?l ?a row col) =
          Inr (blank_grid_cell x)"
    proof (cases "row = 8")
      case True
      then show ?thesis
        by (simp add: x render_cell_def blank_grid_cell_def)
    next
      case False
      show ?thesis
      proof (cases "cell_z ?pos ?l ?a row col")
        case None
        then show ?thesis
          using False by (simp add: x render_cell_def blank_grid_cell_def)
      next
        case (Some n)
        have "case cell_z ?pos ?l ?a row col of None \<Rightarrow> True | Some n \<Rightarrow> 1 \<le> n \<and> n \<le> 118"
          using grid_ids_in_table mem unfolding list_all_iff x by blast
        then have n: "1 \<le> n" "n \<le> 118"
          by (simp_all add: Some)
        have i: "nat (n - 1) < length PERIODIC_TABLE"
          unfolding length_PERIODIC_TABLE using n by arith
        have "elem_by_z ?es n = Some (?es ! nat (n - 1))"
          using z_blank n by (rule elem_by_z_numbered)
        also have "?es ! nat (n - 1) = blank_element (PERIODIC_TABLE ! nat (n - 1))"
          using i by (rule nth_map)
        finally have "elem_by_z ?es n = Some (blank_element (PERIODIC_TABLE ! nat (n - 1)))" .
        then show ?thesis
          using False Some
          by (simp add: x render_cell_def blank_grid_cell_def element_cell_blank)
      qed
    qed
  qed
  then show ?thesis
    by (simp add: cells_html_def Let_def)
qed

text \<open>
  C7. For a payload with no entity and empty (or absent) legends the merge and render
  steps return a document, with no exception. The document is the fixed frame of the
  page around two blocks: the block of the table, which is the cells of the grid one
  after the other, and the block of the legend, which is empty. The cells are, in grid
  order, a spacer in row 8, an empty cell where the grid holds no element, and at each
  of the 118 places of an element the cell of four neutral quarters: fallback colour
  \<open>#eaeaea\<close>, empty tag, empty tooltip. Every merged element is blank: four
  fully-empty samples.
\<close>

theorem empty_payload_renders:
  "(p_elements data = None \<or> p_elements data = Some []) \<and>
   (p_legend data = None \<or> p_legend data = Some []) \<and>
   (p_labelColors data = None \<or> p_labelColors data = Some []) \<longrightarrow>
     pipeline css js data title =
       Inr (
          ''<!doctype html>'' @ nl @
          ''<html lang='' @ dq @ ''en'' @ dq @ ''>'' @ nl @
          ''<head>'' @ nl @
          ''  <meta charset='' @ dq @ ''utf-8'' @ dq @ ''>'' @ nl @
          ''  <meta name='' @ dq @ ''viewport'' @ dq @ '' content='' @ dq @
            ''width=device-width, initial-scale=1'' @ dq @ ''>'' @ nl @
          ''  <title>'' @ esc title @ ''</title>'' @ nl @
          ''  <style>'' @ css @ ''</style>'' @ nl @
          ''</head>'' @ nl @
          ''<body>'' @ nl @
          ''  <h1>'' @ esc title @ ''</h1>'' @ nl @
          ''  <div class='' @ dq @ ''table'' @ dq @ ''>'' @ nl @
          ''    '' @ concat (map blank_grid_cell grid) @ nl @
          ''  </div>'' @ nl @
          ''  <div class='' @ dq @ ''legend'' @ dq @ ''>'' @ nl @
          ''    '' @ nl @
          ''  </div>'' @ nl @
          ''  <div id='' @ dq @ ''overlay'' @ dq @ '' class='' @ dq @ ''overlay'' @ dq @ ''></div>'' @ nl @
          ''  <div id='' @ dq @ ''popup'' @ dq @ '' class='' @ dq @ ''popup'' @ dq @ ''></div>'' @ nl @
          nl @ ''<script>'' @ nl @ ''const elementsData = '' @
            elements_js_object (map blank_element PERIODIC_TABLE) @ '';'' @ js @ nl @
          ''</body>'' @ nl @
          ''</html>'') \<and>
     assemble_elements data lc = map blank_element PERIODIC_TABLE \<and>
     legend_html data = [] \<and>
     concat (legend_html data) = [] \<and>
     cells_html (assemble_elements data lc) = Inr (map blank_grid_cell grid) \<and>
     length (map blank_grid_cell grid) = 180 \<and>
     length (filter (\<lambda>n. n \<noteq> None)
        (map (\<lambda>(row, col). cell_z build_cell_positions (fst assign_f_block) (snd assign_f_block) row col)
           grid)) = 118 \<and>
     element_cell (blank_element m) = Inr (blank_cell m) \<and>
     render_sample_quarter empty_sample 0 = neutral_quarter 0 \<and>
     render_sample_quarter empty_sample 1 = neutral_quarter 1 \<and>
     render_sample_quarter empty_sample 2 = neutral_quarter 2 \<and>
     render_sample_quarter empty_sample 3 = neutral_quarter 3"
  (is "_ \<longrightarrow> ?document \<and> ?merged \<and> ?legend \<and> ?block \<and> ?cells \<and> ?len \<and> ?count \<and> ?rest")
proof (rule impI)
  assume e: "(p_elements data = None \<or> p_elements data = Some []) \<and>
   (p_legend data = None \<or> p_legend data = Some []) \<and>
   (p_labelColors data = None \<or> p_labelColors data = Some [])"
  then have sm: "build_sheet_map data = []"
    by (auto simp: build_sheet_map_def)
  have merged: "\<And>lc. assemble_elements data lc = map blank_element PERIODIC_TABLE"
    by (simp add: assemble_elements_def sm assemble_one_blank)
  have legend: "legend_html data = []"
    using e by (auto simp: legend_html_def legend_order_def)
  have cells: ?cells
    by (simp only: merged cells_html_blank)
  have doc: "pipeline css js data title =
       Inr (html_document css js title (map blank_grid_cell grid) []
              (map blank_element PERIODIC_TABLE))"
    by (simp add: pipeline_def render_html_def Let_def merged cells_html_blank legend)
  have document: ?document
    unfolding doc html_document_def Let_def by simp
  have len: ?len
    by (simp add: length_grid)
  have rest: ?rest
    by (intro conjI element_cell_blank blank_quarter_0 blank_quarter_1 blank_quarter_2
        blank_quarter_3)
  have block: ?block
    by (simp add: legend)
  show "?document \<and> ?merged \<and> ?legend \<and> ?block \<and> ?cells \<and> ?len \<and> ?count \<and> ?rest"
    by (intro conjI document merged legend block cells len grid_element_count rest)
qed

theorem empty_payload_renders_witness:
  "p_elements empty_payload = Some [] \<and>
   p_legend empty_payload = Some [] \<and>
   p_labelColors empty_payload = Some [] \<and>
   pipeline [] [] empty_payload ''T'' =
     Inr (
        ''<!doctype html>'' @ nl @
        ''<html lang='' @ dq @ ''en'' @ dq @ ''>'' @ nl @
        ''<head>'' @ nl @
        ''  <meta charset='' @ dq @ ''utf-8'' @ dq @ ''>'' @ nl @
        ''  <meta name='' @ dq @ ''viewport'' @ dq @ '' content='' @ dq @
          ''width=device-width, initial-scale=1'' @ dq @ ''>'' @ nl @
        ''  <title>'' @ esc ''T'' @ ''</title>'' @ nl @
        ''  <style>'' @ [] @ ''</style>'' @ nl @
        ''</head>'' @ nl @
        ''<body>'' @ nl @
        ''  <h1>'' @ esc ''T'' @ ''</h1>'' @ nl @
        ''  <div class='' @ dq @ ''table'' @ dq @ ''>'' @ nl @
        ''    '' @ concat (map blank_grid_cell grid) @ nl @
        ''  </div>'' @ nl @
        ''  <div class='' @ dq @ ''legend'' @ dq @ ''>'' @ nl @
        ''    '' @ nl @
        ''  </div>'' @ nl @
        ''  <div id='' @ dq @ ''overlay'' @ dq @ '' class='' @ dq @ ''overlay'' @ dq @ ''></div>'' @ nl @
        ''  <div id='' @ dq @ ''popup'' @ dq @ '' class='' @ dq @ ''popup'' @ dq @ ''></div>'' @ nl @
        nl @ ''<script>'' @ nl @ ''const elementsData = '' @
          elements_js_object (map blank_element PERIODIC_TABLE) @ '';'' @ [] @ nl @
        ''</body>'' @ nl @
        ''</html>'') \<and>
   legend_html empty_payload = [] \<and>
   cells_html (assemble_elements empty_payload []) = Inr (map blank_grid_cell grid)"
proof -
  have s1: "p_elements empty_payload = Some []"
    and s2: "p_legend empty_payload = Some []"
    and s3: "p_labelColors empty_payload = Some []"
    by (simp_all add: empty_payload_def)
  have h: "(p_elements empty_payload = None \<or> p_elements empty_payload = Some []) \<and>
   (p_legend empty_payload = None \<or> p_legend empty_payload = Some []) \<and>
   (p_labelColors empty_payload = None \<or> p_labelColors empty_payload = Some [])"
    by (simp only: s1 s2 s3) simp
  note r = mp [OF empty_payload_renders
      [where data = empty_payload and css = "[]" and js = "[]" and title = "''T''" and lc = "[]"] h]
  show ?thesis
    by (intro conjI s1 s2 s3 conjunct1 [OF r]
        r [THEN conjunct2, THEN conjunct2, THEN conjunct1]
        r [THEN conjunct2, THEN conjunct2, THEN conjunct2, THEN conjunct2, THEN conjunct1])
qed

end
